theory Spec2Isabelle
  imports Complex_Main "HOL-Library.Char_ord" "HOL-Library.List_Lexorder"
begin

section \<open>JavaScript values at the boundary\<close>

text \<open>
  A JavaScript number is modelled by a real: the finite doubles are read as the reals they
  denote, and the rounding and overflow of IEEE arithmetic are not modelled. The two
  non-finite outcomes of a conversion, \<^verbatim>\<open>NaN\<close> and the infinities, are the value
  \<open>None\<close> of the parsers below. A string is a list of ASCII characters.
\<close>

type_synonym number = real

definition is_ws :: "char \<Rightarrow> bool" where
  "is_ws c \<longleftrightarrow> c = CHR '' '' \<or> c = CHR 0x09 \<or> c = CHR 0x0A \<or> c = CHR 0x0B
      \<or> c = CHR 0x0C \<or> c = CHR 0x0D"

text \<open>The position of a character in a list of characters (its length when absent).\<close>

definition pos :: "char \<Rightarrow> string \<Rightarrow> nat" where
  "pos c cs = length (takeWhile (\<lambda>d. d \<noteq> c) cs)"

definition is_digit :: "char \<Rightarrow> bool" where
  "is_digit c \<longleftrightarrow> c \<in> set ''0123456789''"

definition digit_val :: "char \<Rightarrow> nat" where
  "digit_val c = (if is_digit c then pos c ''0123456789'' else 0)"

definition nat_of_digits :: "string \<Rightarrow> nat" where
  "nat_of_digits ds = foldl (\<lambda>a c. 10 * a + digit_val c) 0 ds"

definition trim :: "string \<Rightarrow> string" where
  "trim s = rev (dropWhile is_ws (rev (dropWhile is_ws s)))"

text \<open>An optional leading sign: whether it is a minus, and what follows it.\<close>

definition split_sign :: "string \<Rightarrow> bool \<times> string" where
  "split_sign s =
     (case s of
        [] \<Rightarrow> (False, [])
      | c # t \<Rightarrow> if c = CHR ''-'' then (True, t) else if c = CHR ''+'' then (False, t)
                 else (False, s))"

definition scan_exponent :: "string \<Rightarrow> (int \<times> string) option" where
  "scan_exponent s =
     (case s of
        [] \<Rightarrow> None
      | c # t \<Rightarrow>
          if c = CHR ''e'' \<or> c = CHR ''E'' then
            (let (neg, u) = split_sign t; ds = takeWhile is_digit u
             in if ds = [] then None
                else Some (if neg then - int (nat_of_digits ds) else int (nat_of_digits ds),
                           dropWhile is_digit u))
          else None)"

text \<open>
  The longest prefix that is an unsigned decimal literal (digits, an optional fraction, an
  optional exponent), with its value and the rest of the string.
\<close>

definition scan_decimal :: "string \<Rightarrow> (number \<times> string) option" where
  "scan_decimal s =
     (let ip = takeWhile is_digit s; r1 = dropWhile is_digit s;
          (fp, r2) = (case r1 of
                        [] \<Rightarrow> ([], r1)
                      | c # t \<Rightarrow> if c = CHR ''.''
                                 then (takeWhile is_digit t, dropWhile is_digit t)
                                 else ([], r1))
      in if ip = [] \<and> fp = [] then None
         else
           (let m = real (nat_of_digits ip) + real (nat_of_digits fp) / 10 ^ length fp
            in case scan_exponent r2 of
                 None \<Rightarrow> Some (m, r2)
               | Some (e, r3) \<Rightarrow>
                   Some (if 0 \<le> e then m * 10 ^ nat e else m / 10 ^ nat (- e), r3)))"

definition radix_val :: "nat \<Rightarrow> char \<Rightarrow> nat option" where
  "radix_val b c =
     (let d = (if is_digit c then digit_val c
               else if c \<in> set ''abcdef'' then 10 + pos c ''abcdef''
               else if c \<in> set ''ABCDEF'' then 10 + pos c ''ABCDEF''
               else b)
      in if d < b then Some d else None)"

fun radix_digits :: "nat \<Rightarrow> nat \<Rightarrow> string \<Rightarrow> nat option" where
  "radix_digits b acc [] = Some acc"
| "radix_digits b acc (c # cs) =
     (case radix_val b c of None \<Rightarrow> None | Some d \<Rightarrow> radix_digits b (b * acc + d) cs)"

text \<open>The literals \<^verbatim>\<open>0x..\<close>, \<^verbatim>\<open>0o..\<close> and \<^verbatim>\<open>0b..\<close>, which take no sign.\<close>

definition scan_radix :: "string \<Rightarrow> nat option" where
  "scan_radix t =
     (case t of
        z # p # ds \<Rightarrow>
          if z = CHR ''0'' \<and> ds \<noteq> [] then
            (if p = CHR ''x'' \<or> p = CHR ''X'' then radix_digits 16 0 ds
             else if p = CHR ''o'' \<or> p = CHR ''O'' then radix_digits 8 0 ds
             else if p = CHR ''b'' \<or> p = CHR ''B'' then radix_digits 2 0 ds
             else None)
          else None
      | _ \<Rightarrow> None)"

text \<open>
  \<^verbatim>\<open>Number(s)\<close> on a string, followed by the finiteness test every caller in this
  program applies: \<open>None\<close> stands for \<^verbatim>\<open>NaN\<close>, \<^verbatim>\<open>Infinity\<close> and
  \<^verbatim>\<open>-Infinity\<close>. The whole trimmed string has to be a numeric literal; the empty
  string converts to 0.
\<close>

definition Number_js :: "string \<Rightarrow> number option" where
  "Number_js s =
     (let t = trim s
      in if t = [] then Some 0
         else case scan_radix t of
                Some n \<Rightarrow> Some (real n)
              | None \<Rightarrow>
                  (let (neg, u) = split_sign t
                   in case scan_decimal u of
                        Some (x, []) \<Rightarrow> Some (if neg then - x else x)
                      | _ \<Rightarrow> None))"

text \<open>
  \<^verbatim>\<open>parseFloat(s)\<close>: leading white space is skipped and the longest decimal prefix is
  converted; \<open>None\<close> is \<^verbatim>\<open>NaN\<close>. The literal \<^verbatim>\<open>Infinity\<close>, which
  \<^verbatim>\<open>parseFloat\<close> accepts, has no real value and is \<open>None\<close> here as well.
\<close>

definition parseFloat :: "string \<Rightarrow> number option" where
  "parseFloat s =
     (let (neg, u) = split_sign (dropWhile is_ws s)
      in case scan_decimal u of
           Some (x, _) \<Rightarrow> Some (if neg then - x else x)
         | None \<Rightarrow> None)"

text \<open>\<^verbatim>\<open>parseInt(s, 10)\<close>: white space, a sign, then the longest run of digits.\<close>

definition parseInt :: "string \<Rightarrow> int option" where
  "parseInt s =
     (let (neg, u) = split_sign (dropWhile is_ws s); ds = takeWhile is_digit u
      in if ds = [] then None
         else Some (if neg then - int (nat_of_digits ds) else int (nat_of_digits ds)))"

definition digit_char :: "nat \<Rightarrow> char" where
  "digit_char n = ''0123456789'' ! n"

fun digits_of :: "nat \<Rightarrow> string" where
  "digits_of n =
     (if n < 10 then [digit_char n] else digits_of (n div 10) @ [digit_char (n mod 10)])"

declare digits_of.simps [simp del]

text \<open>\<^verbatim>\<open>String(n)\<close> on an integer.\<close>

definition String_int :: "int \<Rightarrow> string" where
  "String_int i = (if i < 0 then CHR ''-'' # digits_of (nat (- i)) else digits_of (nat i))"

text \<open>\<^verbatim>\<open>s.padStart(2, "0")\<close>.\<close>

definition padStart2 :: "string \<Rightarrow> string" where
  "padStart2 s = replicate (2 - length s) (CHR ''0'') @ s"

text \<open>Truthiness of a string that may be \<^verbatim>\<open>undefined\<close>: neither undefined nor empty.\<close>

definition truthy :: "string option \<Rightarrow> bool" where
  "truthy v \<longleftrightarrow> (case v of None \<Rightarrow> False | Some s \<Rightarrow> s \<noteq> [])"


section \<open>The day record\<close>

text \<open>
  \<^verbatim>\<open>FeederData\<close>, \<^verbatim>\<open>TurbineData\<close> and \<^verbatim>\<open>DayData\<close> of the storage module.
  A record read back from JSON may lack a field, and the code reads every field through
  \<^verbatim>\<open>?.\<close>, so a field is an option (\<open>None\<close> is \<^verbatim>\<open>undefined\<close>) and the two
  collections are partial maps from the identifier.
\<close>

record FeederData =
  start :: "string option"
  end' :: "string option"

record TurbineData =
  previous :: "string option"
  present :: "string option"
  hours :: "string option"

record DayData =
  dateKey :: string
  feeders :: "string \<rightharpoonup> FeederData"
  turbines :: "string \<rightharpoonup> TurbineData"

definition FEEDERS :: "string list" where
  "FEEDERS = [''F2'', ''F3'', ''F4'', ''F5'']"

definition TURBINES :: "string list" where
  "TURBINES = [''A'', ''B'', ''C'', ''S'']"

definition monthKey :: "string \<Rightarrow> string" where
  "monthKey dk = take 7 dk"

definition defaultDay :: "string \<Rightarrow> DayData" where
  "defaultDay dk =
     \<lparr>dateKey = dk,
      feeders = map_of (map (\<lambda>f. (f, \<lparr>start = Some '''', end' = Some ''''\<rparr>)) FEEDERS),
      turbines = map_of (map (\<lambda>t. (t, \<lparr>previous = Some '''', present = Some '''',
                                        hours = Some ''24''\<rparr>)) TURBINES)\<rparr>"


section \<open>The derivation engine\<close>

definition num :: "string option \<Rightarrow> number" where
  "num v = (case v of
              None \<Rightarrow> 0
            | Some s \<Rightarrow> (case Number_js s of None \<Rightarrow> 0 | Some n \<Rightarrow> n))"

definition feederExport :: "DayData \<Rightarrow> number" where
  "feederExport day =
     foldl (\<lambda>acc f.
              let start = num (Option.bind (feeders day f) start);
                  end = num (Option.bind (feeders day f) end');
                  diff = start - end
              in acc + diff) 0 FEEDERS"

definition turbineProductionMwh :: "DayData \<Rightarrow> number" where
  "turbineProductionMwh day =
     foldl (\<lambda>acc t.
              let prev = num (Option.bind (turbines day t) previous);
                  pres = num (Option.bind (turbines day t) present)
              in acc + (pres - prev)) 0 TURBINES"

record TurbineComputed =
  prev :: number
  pres :: number
  hours_c :: number
  diff :: number
  mwPerHr :: number

definition turbineRowComputed :: "DayData \<Rightarrow> string \<Rightarrow> TurbineComputed" where
  "turbineRowComputed day t =
     (let prev = num (Option.bind (turbines day t) previous);
          pres = num (Option.bind (turbines day t) present);
          h = Option.bind (turbines day t) hours;
          hours = max 0.000001 (num (if truthy h then h else Some ''24''));
          diff = pres - prev;
          mwPerHr = diff / hours
      in \<lparr>prev = prev, pres = pres, hours_c = hours, diff = diff, mwPerHr = mwPerHr\<rparr>)"

definition gasForTurbine :: "number \<Rightarrow> number \<Rightarrow> number" where
  "gasForTurbine diffMwh mwPerHr' =
     (let p = diffMwh; r = mwPerHr'
      in if r \<le> 3 then p * 1000
         else if r \<le> 5 then p * 700
         else if r \<le> 8 then p * 500
         else p * 420)"

definition m3ToMMscf :: "number \<Rightarrow> number" where
  "m3ToMMscf m3 = (m3 * 35.3146667) / 1000000"

text \<open>\<^verbatim>\<open>computeDayStats\<close> of the Excel export (the chart has the same function).\<close>

record DayStats =
  production :: number
  consumption :: number
  exportVal :: number
  isExport :: bool
  gasConsumed :: number

definition computeDayStats :: "DayData \<Rightarrow> DayStats" where
  "computeDayStats day =
     (let production = turbineProductionMwh day;
          exportVal = feederExport day;
          consumption = production - exportVal;
          isExport = (exportVal \<ge> 0);
          totalGas = foldl (\<lambda>totalGas t.
                              let row = turbineRowComputed day t
                              in totalGas + gasForTurbine (diff row) (mwPerHr row)) 0 TURBINES
      in \<lparr>production = production, consumption = consumption, exportVal = exportVal,
          isExport = isExport, gasConsumed = totalGas\<rparr>)"

text \<open>The \<^verbatim>\<open>calculations\<close> memo of the calculations screen.\<close>

record TurbineGas =
  t_name :: string
  computed :: TurbineComputed
  gasM3 :: number
  gasMMscf :: number

record Calculations =
  c_production :: number
  c_exportVal :: number
  c_consumption :: number
  turbineData :: "TurbineGas list"
  totalGasM3 :: number
  totalGasMMscf :: number

definition calculations :: "DayData \<Rightarrow> Calculations" where
  "calculations day =
     (let production = turbineProductionMwh day;
          exportVal = feederExport day;
          consumption = production - exportVal;
          turbineData = map (\<lambda>t.
                               let computed = turbineRowComputed day t;
                                   gasM3 = gasForTurbine (diff computed) (mwPerHr computed);
                                   gasMMscf = m3ToMMscf gasM3
                               in \<lparr>t_name = t, computed = computed, gasM3 = gasM3,
                                   gasMMscf = gasMMscf\<rparr>) TURBINES;
          totalGasM3 = foldl (\<lambda>a r. a + gasM3 r) 0 turbineData;
          totalGasMMscf = foldl (\<lambda>a r. a + gasMMscf r) 0 turbineData
      in \<lparr>c_production = production, c_exportVal = exportVal, c_consumption = consumption,
          turbineData = turbineData, totalGasM3 = totalGasM3,
          totalGasMMscf = totalGasMMscf\<rparr>)"

text \<open>The \<^verbatim>\<open>currentDayStats\<close> memo of the history screen.\<close>

definition currentDayStats :: "DayData \<Rightarrow> number \<times> number \<times> number \<times> bool" where
  "currentDayStats day =
     (let production = turbineProductionMwh day;
          exportVal = feederExport day;
          consumption = production - exportVal;
          isExport = (exportVal \<ge> 0)
      in (production, exportVal, consumption, isExport))"


section \<open>The hours keypad\<close>

definition clampHours :: "string \<Rightarrow> string" where
  "clampHours val =
     (if val = [] then ''24''
      else case parseInt val of
             None \<Rightarrow> ''1''
           | Some n \<Rightarrow> if n < 1 then ''1'' else if n > 24 then ''24'' else String_int n)"


section \<open>Calendar dates\<close>

text \<open>
  \<^verbatim>\<open>new Date(s)\<close> is modelled on the date-only form \<^verbatim>\<open>YYYY-MM-DD\<close> that
  \<^verbatim>\<open>formatDateKey\<close> writes; every other string counts as an invalid date. Such a
  string denotes midnight UTC, while \<^verbatim>\<open>getDate\<close>, \<^verbatim>\<open>setDate\<close>,
  \<^verbatim>\<open>getMonth\<close> and \<^verbatim>\<open>getFullYear\<close> work in local time: the parameter \<open>tz\<close>
  is the offset of local time from UTC in minutes, and west of UTC (\<open>tz < 0\<close>) the local
  calendar day at that instant is the day before.
\<close>

type_synonym civil = "int \<times> nat \<times> nat"

definition isLeap :: "int \<Rightarrow> bool" where
  "isLeap y \<longleftrightarrow> (y mod 4 = 0 \<and> y mod 100 \<noteq> 0) \<or> y mod 400 = 0"

definition daysInMonth :: "int \<Rightarrow> nat \<Rightarrow> nat" where
  "daysInMonth y m =
     (if m = 2 then (if isLeap y then 29 else 28)
      else if m = 4 \<or> m = 6 \<or> m = 9 \<or> m = 11 then 30 else 31)"

definition parseDateOnly :: "string \<Rightarrow> civil option" where
  "parseDateOnly s =
     (if length s = 10 \<and> s ! 4 = CHR ''-'' \<and> s ! 7 = CHR ''-''
         \<and> list_all is_digit (take 4 s) \<and> list_all is_digit (take 2 (drop 5 s))
         \<and> list_all is_digit (drop 8 s)
      then (let y = int (nat_of_digits (take 4 s));
                m = nat_of_digits (take 2 (drop 5 s));
                d = nat_of_digits (drop 8 s)
            in if 1 \<le> m \<and> m \<le> 12 \<and> 1 \<le> d \<and> d \<le> daysInMonth y m then Some (y, m, d)
               else None)
      else None)"

text \<open>One calendar day back: \<^verbatim>\<open>setDate(getDate() - 1)\<close>.\<close>

definition dayBefore :: "civil \<Rightarrow> civil" where
  "dayBefore c =
     (case c of (y, m, d) \<Rightarrow>
        if 1 < d then (y, m, d - 1)
        else if 1 < m then (y, m - 1, daysInMonth y (m - 1))
        else (y - 1, 12, 31))"

text \<open>The local calendar day of \<^verbatim>\<open>new Date(s)\<close>; \<open>None\<close> is an invalid date.\<close>

definition Date_new :: "int \<Rightarrow> string \<Rightarrow> civil option" where
  "Date_new tz s =
     (case parseDateOnly s of
        None \<Rightarrow> None
      | Some c \<Rightarrow> Some (if tz < 0 then dayBefore c else c))"

definition getPreviousDateKey :: "int \<Rightarrow> string \<Rightarrow> string" where
  "getPreviousDateKey tz dk =
     (case Date_new tz dk of
        None \<Rightarrow> ''''
      | Some date \<Rightarrow>
          (case dayBefore date of (yyyy, mth, day) \<Rightarrow>
             let mm = padStart2 (String_int (int mth));
                 dd = padStart2 (String_int (int day))
             in String_int yyyy @ ''-'' @ mm @ ''-'' @ dd))"


section \<open>Local storage\<close>

text \<open>
  The key-value store holds texts. A text is represented by what \<^verbatim>\<open>JSON.parse\<close>
  makes of it: \<open>Bad\<close> is a text that \<^verbatim>\<open>JSON.parse\<close> rejects (the empty text
  included, which every reader treats the same way), \<open>Doc\<close> a JSON document. The
  documents are the three kinds this program writes; in a stored day each of the three
  fields may be absent. \<^verbatim>\<open>JSON.stringify\<close> of a value is the document of that value.
\<close>

record StoredDay =
  sd_dateKey :: "string option"
  sd_feeders :: "(string \<rightharpoonup> FeederData) option"
  sd_turbines :: "(string \<rightharpoonup> TurbineData) option"


record StoredSettings =
  ss_displayName :: "string option"
  ss_decimalPrecision :: "int option"

datatype doc = DayDoc StoredDay | IndexDoc "string list" | SettingsDoc StoredSettings

datatype raw = Bad | Doc doc

datatype js_error = StorageError | TypeError

text \<open>
  Each of the three operations of the store may reject; which keys reject is part of the
  state, so that every pattern of failures is an input.
\<close>

record Storage =
  items :: "string \<rightharpoonup> raw"
  getFails :: "string \<Rightarrow> bool"
  setFails :: "string \<Rightarrow> bool"
  removeFails :: "string \<Rightarrow> bool"

definition getItem :: "Storage \<Rightarrow> string \<Rightarrow> js_error + raw option" where
  "getItem s k = (if getFails s k then Inl StorageError else Inr (items s k))"

definition setItem :: "Storage \<Rightarrow> string \<Rightarrow> raw \<Rightarrow> js_error + Storage" where
  "setItem s k v =
     (if setFails s k then Inl StorageError else Inr (s\<lparr>items := (items s)(k \<mapsto> v)\<rparr>))"

definition removeItem :: "Storage \<Rightarrow> string \<Rightarrow> js_error + Storage" where
  "removeItem s k =
     (if removeFails s k then Inl StorageError else Inr (s\<lparr>items := (items s)(k := None)\<rparr>))"

definition STORAGE_PREFIX :: string where
  "STORAGE_PREFIX = ''pp-app:v2''"


definition storageKey :: "string \<Rightarrow> string" where
  "storageKey dk = STORAGE_PREFIX @ '':day:'' @ dk"

definition listKey :: string where
  "listKey = STORAGE_PREFIX @ '':days:index''"

definition stringifyDay :: "DayData \<Rightarrow> raw" where
  "stringifyDay day =
     Doc (DayDoc \<lparr>sd_dateKey = Some (dateKey day), sd_feeders = Some (feeders day),
                   sd_turbines = Some (turbines day)\<rparr>)"

text \<open>
  A parsed document read as a day: a document of another kind has none of the three
  fields.
\<close>

definition asStoredDay :: "doc \<Rightarrow> StoredDay" where
  "asStoredDay d =
     (case d of
        DayDoc p \<Rightarrow> p
      | _ \<Rightarrow> \<lparr>sd_dateKey = None, sd_feeders = None, sd_turbines = None\<rparr>)"

text \<open>\<^verbatim>\<open>{ ...defaultDay(dateKey), ...parsed }\<close>: a field of \<open>parsed\<close> wins when present.\<close>

definition spreadDay :: "DayData \<Rightarrow> StoredDay \<Rightarrow> DayData" where
  "spreadDay dflt parsed =
     \<lparr>dateKey = (case sd_dateKey parsed of None \<Rightarrow> dateKey dflt | Some k \<Rightarrow> k),
      feeders = (case sd_feeders parsed of None \<Rightarrow> feeders dflt | Some m \<Rightarrow> m),
      turbines = (case sd_turbines parsed of None \<Rightarrow> turbines dflt | Some m \<Rightarrow> m)\<rparr>"

text \<open>
  \<^verbatim>\<open>getDayIndex\<close>: \<open>None\<close> is a parsed value that is not an array, on which the
  array methods of the callers raise a \<^verbatim>\<open>TypeError\<close>.
\<close>

definition getDayIndex :: "Storage \<Rightarrow> string list option" where
  "getDayIndex s =
     (case getItem s listKey of
        Inl e \<Rightarrow> Some []
      | Inr None \<Rightarrow> Some []
      | Inr (Some Bad) \<Rightarrow> Some []
      | Inr (Some (Doc (IndexDoc arr))) \<Rightarrow> Some arr
      | Inr (Some (Doc _)) \<Rightarrow> None)"

definition upsertDayIndex :: "Storage \<Rightarrow> string \<Rightarrow> Storage" where
  "upsertDayIndex s dk =
     (case getDayIndex s of
        None \<Rightarrow> s
      | Some arr \<Rightarrow>
          if dk \<notin> set arr then
            (case setItem s listKey (Doc (IndexDoc (sort (arr @ [dk])))) of
               Inl e \<Rightarrow> s
             | Inr s' \<Rightarrow> s')
          else s)"

definition getDayData :: "Storage \<Rightarrow> string \<Rightarrow> DayData" where
  "getDayData s dk =
     (case getItem s (storageKey dk) of
        Inl e \<Rightarrow> defaultDay dk
      | Inr None \<Rightarrow> defaultDay dk
      | Inr (Some Bad) \<Rightarrow> defaultDay dk
      | Inr (Some (Doc parsed)) \<Rightarrow> spreadDay (defaultDay dk) (asStoredDay parsed))"

text \<open>\<^verbatim>\<open>{ ...x }\<close> of an entry that may be undefined.\<close>

definition spreadFeeder :: "FeederData option \<Rightarrow> FeederData" where
  "spreadFeeder x = (case x of None \<Rightarrow> \<lparr>start = None, end' = None\<rparr> | Some fd \<Rightarrow> fd)"

definition spreadTurbine :: "TurbineData option \<Rightarrow> TurbineData" where
  "spreadTurbine x =
     (case x of None \<Rightarrow> \<lparr>previous = None, present = None, hours = None\<rparr> | Some td \<Rightarrow> td)"

text \<open>\<^verbatim>\<open>prevDay.feeders?.[f]?.end\<close> and \<^verbatim>\<open>prevDay.turbines?.[t]?.present\<close>.\<close>

definition prevEndOf :: "StoredDay \<Rightarrow> string \<Rightarrow> string option" where
  "prevEndOf prevDay f = Option.bind (Option.bind (sd_feeders prevDay) (\<lambda>m. m f)) end'"

definition prevPresentOf :: "StoredDay \<Rightarrow> string \<Rightarrow> string option" where
  "prevPresentOf prevDay t = Option.bind (Option.bind (sd_turbines prevDay) (\<lambda>m. m t)) present"

definition getDayDataWithLinkedValues :: "int \<Rightarrow> Storage \<Rightarrow> string \<Rightarrow> DayData" where
  "getDayDataWithLinkedValues tz s dk =
     (let currentDay = getDayData s dk;
          prevDateKey = getPreviousDateKey tz dk
      in if prevDateKey = [] then currentDay
         else case getItem s (storageKey prevDateKey) of
                Inl e \<Rightarrow> currentDay
              | Inr None \<Rightarrow> currentDay
              | Inr (Some Bad) \<Rightarrow> currentDay
              | Inr (Some (Doc parsed)) \<Rightarrow>
                  (let prevDay = asStoredDay parsed;
                       linkedFeeders =
                         foldl (\<lambda>linkedFeeders f.
                                  let prevEnd = prevEndOf prevDay f
                                  in if truthy prevEnd
                                        \<and> \<not> truthy (Option.bind (feeders currentDay f) start)
                                     then linkedFeeders
                                            (f \<mapsto> (spreadFeeder (linkedFeeders f))
                                                  \<lparr>start := prevEnd\<rparr>)
                                     else linkedFeeders)
                           (feeders currentDay) FEEDERS;
                       linkedTurbines =
                         foldl (\<lambda>linkedTurbines t.
                                  let prevPresent = prevPresentOf prevDay t
                                  in if truthy prevPresent
                                        \<and> \<not> truthy (Option.bind (turbines currentDay t) previous)
                                     then linkedTurbines
                                            (t \<mapsto> (spreadTurbine (linkedTurbines t))
                                                  \<lparr>previous := prevPresent\<rparr>)
                                     else linkedTurbines)
                           (turbines currentDay) TURBINES
                   in currentDay\<lparr>feeders := linkedFeeders, turbines := linkedTurbines\<rparr>))"

text \<open>
  \<^verbatim>\<open>saveDayData\<close>: a rejected write of the record is rethrown, and the store is then
  as it was; the index update swallows its own failures.
\<close>

definition saveDayData :: "Storage \<Rightarrow> DayData \<Rightarrow> js_error + Storage" where
  "saveDayData s day =
     (case setItem s (storageKey (dateKey day)) (stringifyDay day) of
        Inl e \<Rightarrow> Inl e
      | Inr s1 \<Rightarrow> Inr (upsertDayIndex s1 (dateKey day)))"

text \<open>
  \<^verbatim>\<open>deleteDayData\<close>: the outcome and the store it leaves (the record may already be
  removed when the index write fails).
\<close>

definition deleteDayData :: "Storage \<Rightarrow> string \<Rightarrow> (js_error + unit) \<times> Storage" where
  "deleteDayData s dk =
     (case removeItem s (storageKey dk) of
        Inl e \<Rightarrow> (Inl e, s)
      | Inr s1 \<Rightarrow>
          (case getDayIndex s1 of
             None \<Rightarrow> (Inl TypeError, s1)
           | Some arr \<Rightarrow>
               (case setItem s1 listKey (Doc (IndexDoc (filter (\<lambda>d. d \<noteq> dk) arr))) of
                  Inl e \<Rightarrow> (Inl e, s1)
                | Inr s2 \<Rightarrow> (Inr (), s2))))"












section \<open>The remote mirror\<close>

text \<open>
  The three tables of the hosted database, with the columns this program reads and
  writes; a reading column may be \<^verbatim>\<open>NULL\<close>. Every request is recorded in
  \<open>calls\<close>, in order, and \<open>outcome_of\<close> says, per request, whether it succeeds,
  returns an error object, or throws (a network failure), so that every pattern of remote
  failures is an input. \<open>console\<close> collects the lines written by \<^verbatim>\<open>console.error\<close>.
  A select that succeeds and finds no single row is the error PGRST116 of
  \<^verbatim>\<open>.single()\<close>, which the code tells apart from the other errors; \<open>Errors\<close> stands
  for those. An upsert replaces the row of its conflict key or appends a new one.
\<close>

datatype outcome = Succeeds | Errors | Throws

datatype rcall =
    SelectDaily string string
  | InsertDaily string string
  | UpsertFeeder string string
  | UpsertTurbine string string
  | SelectFeeders string
  | SelectTurbines string
  | SelectMonth string string string
  | DeleteFeeders string
  | DeleteTurbines string
  | DeleteDaily string

record DailyRow =
  row_id :: string
  user_id :: string
  date_key :: string

record FeederRow =
  f_daily_data_id :: string
  feeder_name :: string
  start_reading :: "string option"
  end_reading :: "string option"

record TurbineRow =
  t_daily_data_id :: string
  turbine_name :: string
  previous_reading :: "string option"
  present_reading :: "string option"
  hours_reading :: "string option"

record Remote =
  daily_data :: "DailyRow list"
  feeders_tbl :: "FeederRow list"
  turbines_tbl :: "TurbineRow list"
  outcome_of :: "rcall \<Rightarrow> outcome"
  calls :: "rcall list"
  console :: "string list"
  next_id :: nat

definition called :: "rcall \<Rightarrow> Remote \<Rightarrow> Remote" where
  "called c r = r\<lparr>calls := calls r @ [c]\<rparr>"

definition console_error :: "string \<Rightarrow> Remote \<Rightarrow> Remote" where
  "console_error msg r = r\<lparr>console := console r @ [msg]\<rparr>"

text \<open>\<^verbatim>\<open>.single()\<close>: the row when exactly one matches, else the error PGRST116.\<close>

definition single :: "'a list \<Rightarrow> 'a option" where
  "single rows = (case rows of [x] \<Rightarrow> Some x | _ \<Rightarrow> None)"

definition selectDaily :: "Remote \<Rightarrow> string \<Rightarrow> string \<Rightarrow> DailyRow option" where
  "selectDaily r userId dk =
     single (filter (\<lambda>d. user_id d = userId \<and> date_key d = dk) (daily_data r))"

text \<open>The feeder upserts of \<^verbatim>\<open>syncDayToSupabase\<close>; \<open>False\<close> when a request throws.\<close>

fun upsertFeeders :: "string \<Rightarrow> DayData \<Rightarrow> string list \<Rightarrow> Remote \<Rightarrow> bool \<times> Remote" where
  "upsertFeeders dailyDataId day [] r = (True, r)"
| "upsertFeeders dailyDataId day (feederName # rest) r =
     (let feeder = (case feeders day feederName of
                      None \<Rightarrow> \<lparr>start = Some '''', end' = Some ''''\<rparr>
                    | Some fd \<Rightarrow> fd);
          r1 = called (UpsertFeeder dailyDataId feederName) r
      in case outcome_of r (UpsertFeeder dailyDataId feederName) of
           Throws \<Rightarrow> (False, r1)
         | Errors \<Rightarrow>
             upsertFeeders dailyDataId day rest
               (console_error (''Error upserting feeder '' @ feederName @ '':'') r1)
         | Succeeds \<Rightarrow>
             upsertFeeders dailyDataId day rest
               (r1\<lparr>feeders_tbl :=
                      filter (\<lambda>x. \<not> (f_daily_data_id x = dailyDataId
                                       \<and> feeder_name x = feederName)) (feeders_tbl r1)
                      @ [\<lparr>f_daily_data_id = dailyDataId, feeder_name = feederName,
                           start_reading = start feeder, end_reading = end' feeder\<rparr>]\<rparr>))"

fun upsertTurbines :: "string \<Rightarrow> DayData \<Rightarrow> string list \<Rightarrow> Remote \<Rightarrow> bool \<times> Remote" where
  "upsertTurbines dailyDataId day [] r = (True, r)"
| "upsertTurbines dailyDataId day (turbineName # rest) r =
     (let turbine = (case turbines day turbineName of
                       None \<Rightarrow> \<lparr>previous = Some '''', present = Some '''', hours = Some ''24''\<rparr>
                     | Some td \<Rightarrow> td);
          r1 = called (UpsertTurbine dailyDataId turbineName) r
      in case outcome_of r (UpsertTurbine dailyDataId turbineName) of
           Throws \<Rightarrow> (False, r1)
         | Errors \<Rightarrow>
             upsertTurbines dailyDataId day rest
               (console_error (''Error upserting turbine '' @ turbineName @ '':'') r1)
         | Succeeds \<Rightarrow>
             upsertTurbines dailyDataId day rest
               (r1\<lparr>turbines_tbl :=
                      filter (\<lambda>x. \<not> (t_daily_data_id x = dailyDataId
                                       \<and> turbine_name x = turbineName)) (turbines_tbl r1)
                      @ [\<lparr>t_daily_data_id = dailyDataId, turbine_name = turbineName,
                           previous_reading = previous turbine,
                           present_reading = present turbine,
                           hours_reading = hours turbine\<rparr>]\<rparr>))"

definition upsertReadings :: "string \<Rightarrow> DayData \<Rightarrow> Remote \<Rightarrow> bool \<times> Remote" where
  "upsertReadings dailyDataId day r =
     (case upsertFeeders dailyDataId day FEEDERS r of
        (False, r1) \<Rightarrow> (False, console_error ''Error syncing day to Supabase:'' r1)
      | (True, r1) \<Rightarrow>
          (case upsertTurbines dailyDataId day TURBINES r1 of
             (False, r2) \<Rightarrow> (False, console_error ''Error syncing day to Supabase:'' r2)
           | (True, r2) \<Rightarrow> (True, r2)))"

definition syncDayToSupabase :: "string \<Rightarrow> DayData \<Rightarrow> Remote \<Rightarrow> bool \<times> Remote" where
  "syncDayToSupabase userId day r =
     (let r1 = called (SelectDaily userId (dateKey day)) r
      in case outcome_of r (SelectDaily userId (dateKey day)) of
           Throws \<Rightarrow> (False, console_error ''Error syncing day to Supabase:'' r1)
         | Errors \<Rightarrow> (False, console_error ''Error fetching daily_data:'' r1)
         | Succeeds \<Rightarrow>
             (case selectDaily r1 userId (dateKey day) of
                Some existingDay \<Rightarrow> upsertReadings (row_id existingDay) day r1
              | None \<Rightarrow>
                  (let r2 = called (InsertDaily userId (dateKey day)) r1
                   in case outcome_of r (InsertDaily userId (dateKey day)) of
                        Throws \<Rightarrow> (False, console_error ''Error syncing day to Supabase:'' r2)
                      | Errors \<Rightarrow> (False, console_error ''Error creating daily_data:'' r2)
                      | Succeeds \<Rightarrow>
                          (let newId = ''id-'' @ digits_of (next_id r2);
                               r3 = r2\<lparr>daily_data := daily_data r2
                                          @ [\<lparr>row_id = newId, user_id = userId,
                                               date_key = dateKey day\<rparr>],
                                        next_id := Suc (next_id r2)\<rparr>
                           in upsertReadings newId day r3))))"

text \<open>\<^verbatim>\<open>x || d\<close> on a column value.\<close>

definition orElse :: "string option \<Rightarrow> string \<Rightarrow> string" where
  "orElse v d = (case v of None \<Rightarrow> d | Some s \<Rightarrow> if s = [] then d else s)"

definition fetchDayFromSupabase :: "string \<Rightarrow> string \<Rightarrow> Remote \<Rightarrow> DayData option \<times> Remote" where
  "fetchDayFromSupabase userId dk r =
     (let r1 = called (SelectDaily userId dk) r
      in case outcome_of r (SelectDaily userId dk) of
           Throws \<Rightarrow> (None, console_error ''Error fetching day from Supabase:'' r1)
         | Errors \<Rightarrow> (None, console_error ''Error fetching daily_data:'' r1)
         | Succeeds \<Rightarrow>
             (case selectDaily r1 userId dk of
                None \<Rightarrow> (None, r1)
              | Some dailyData \<Rightarrow>
                  (let r2 = called (SelectFeeders (row_id dailyData)) r1;
                       fo = outcome_of r (SelectFeeders (row_id dailyData))
                   in if fo = Throws
                      then (None, console_error ''Error fetching day from Supabase:'' r2)
                      else
                        (let feedersData =
                               (if fo = Succeeds
                                then Some (filter (\<lambda>x. f_daily_data_id x = row_id dailyData)
                                             (feeders_tbl r2))
                                else None);
                             r3 = (if fo = Errors
                                   then console_error ''Error fetching feeders:'' r2 else r2);
                             r4 = called (SelectTurbines (row_id dailyData)) r3;
                             to = outcome_of r (SelectTurbines (row_id dailyData))
                         in if to = Throws
                            then (None, console_error ''Error fetching day from Supabase:'' r4)
                            else
                              (let turbinesData =
                                     (if to = Succeeds
                                      then Some (filter
                                                   (\<lambda>x. t_daily_data_id x = row_id dailyData)
                                                   (turbines_tbl r4))
                                      else None);
                                   r5 = (if to = Errors
                                         then console_error ''Error fetching turbines:'' r4
                                         else r4);
                                   feeders =
                                     foldl (\<lambda>feeders f.
                                              let found = Option.bind feedersData
                                                            (find (\<lambda>fd. feeder_name fd = f))
                                              in feeders
                                                   (f \<mapsto> \<lparr>start = Some (orElse
                                                              (Option.bind found start_reading) ''''),
                                                            end' = Some (orElse
                                                              (Option.bind found end_reading) '''')\<rparr>))
                                       Map.empty FEEDERS;
                                   turbines =
                                     foldl (\<lambda>turbines t.
                                              let found = Option.bind turbinesData
                                                            (find (\<lambda>td. turbine_name td = t))
                                              in turbines
                                                   (t \<mapsto> \<lparr>previous = Some (orElse
                                                              (Option.bind found previous_reading) ''''),
                                                            present = Some (orElse
                                                              (Option.bind found present_reading) ''''),
                                                            hours = Some (orElse
                                                              (Option.bind found hours_reading) ''24'')\<rparr>))
                                       Map.empty TURBINES
                               in (Some \<lparr>dateKey = dk, feeders = feeders, turbines = turbines\<rparr>,
                                   r5))))))"

definition deleteDayFromSupabase :: "string \<Rightarrow> Remote \<Rightarrow> bool \<times> Remote" where
  "deleteDayFromSupabase dayId r =
     (let r1 = called (DeleteFeeders dayId) r
      in case outcome_of r (DeleteFeeders dayId) of
           Throws \<Rightarrow> (False, console_error ''Error deleting day:'' r1)
         | Errors \<Rightarrow> (False, console_error ''Error deleting feeders:'' r1)
         | Succeeds \<Rightarrow>
             (let r2 = called (DeleteTurbines dayId)
                         (r1\<lparr>feeders_tbl :=
                               filter (\<lambda>x. f_daily_data_id x \<noteq> dayId) (feeders_tbl r1)\<rparr>)
              in case outcome_of r (DeleteTurbines dayId) of
                   Throws \<Rightarrow> (False, console_error ''Error deleting day:'' r2)
                 | Errors \<Rightarrow> (False, console_error ''Error deleting turbines:'' r2)
                 | Succeeds \<Rightarrow>
                     (let r3 = called (DeleteDaily dayId)
                                 (r2\<lparr>turbines_tbl :=
                                       filter (\<lambda>x. t_daily_data_id x \<noteq> dayId)
                                         (turbines_tbl r2)\<rparr>)
                      in case outcome_of r (DeleteDaily dayId) of
                           Throws \<Rightarrow> (False, console_error ''Error deleting day:'' r3)
                         | Errors \<Rightarrow> (False, console_error ''Error deleting daily_data:'' r3)
                         | Succeeds \<Rightarrow>
                             (True, r3\<lparr>daily_data :=
                                         filter (\<lambda>d. row_id d \<noteq> dayId) (daily_data r3)\<rparr>))))"


text \<open>\<^verbatim>\<open>s.split("-")\<close>.\<close>

fun splitOn :: "char \<Rightarrow> string \<Rightarrow> string list" where
  "splitOn c [] = [[]]"
| "splitOn c (x # xs) =
     (if x = c then [] # splitOn c xs
      else case splitOn c xs of [] \<Rightarrow> [[x]] | p # ps \<Rightarrow> (x # p) # ps)"

definition asInteger :: "number option \<Rightarrow> int option" where
  "asInteger v =
     (case v of None \<Rightarrow> None | Some x \<Rightarrow> if x = of_int \<lfloor>x\<rfloor> then Some \<lfloor>x\<rfloor> else None)"

text \<open>
  The two bounds \<^verbatim>\<open>monthStart\<close> and \<^verbatim>\<open>nextMonthStart\<close> of the month listing.
  They are modelled when both parts of the month key convert to integers; otherwise
  (\<open>None\<close>) they are no date texts.
\<close>

definition monthBounds :: "string \<Rightarrow> (string \<times> string) option" where
  "monthBounds mk =
     (case map Number_js (splitOn (CHR ''-'') mk) of
        y # m # rest \<Rightarrow>
          (case (asInteger y, asInteger m) of
             (Some year, Some mth) \<Rightarrow>
               (let monthStart = String_int year @ ''-'' @ padStart2 (String_int mth) @ ''-01'';
                    nextMonth = (if mth = 12 then 1 else mth + 1);
                    nextYear = (if mth = 12 then year + 1 else year);
                    nextMonthStart =
                      String_int nextYear @ ''-'' @ padStart2 (String_int nextMonth) @ ''-01''
                in Some (monthStart, nextMonthStart))
           | _ \<Rightarrow> None)
      | _ \<Rightarrow> None)"

record DaySummary =
  s_id :: string
  s_dateKey :: string
  s_production :: number
  s_exportVal :: number
  s_consumption :: number

text \<open>\<^verbatim>\<open>parseFloat(x) || 0\<close> on a column value.\<close>

definition parseFloatOr0 :: "string option \<Rightarrow> number" where
  "parseFloatOr0 v =
     (case v of None \<Rightarrow> 0 | Some s \<Rightarrow> (case parseFloat s of None \<Rightarrow> 0 | Some x \<Rightarrow> x))"

text \<open>
  The loop of \<^verbatim>\<open>fetchMonthDaysFromSupabase\<close> over the rows of the month; \<open>None\<close>
  when a request throws.
\<close>

fun summaries :: "DailyRow list \<Rightarrow> Remote \<Rightarrow> DaySummary list option \<times> Remote" where
  "summaries [] r = (Some [], r)"
| "summaries (day # rest) r =
     (let r1 = called (SelectFeeders (row_id day)) r;
          fo = outcome_of r (SelectFeeders (row_id day))
      in if fo = Throws then (None, r1)
         else
           (let feedersData =
                  (if fo = Succeeds
                   then Some (filter (\<lambda>x. f_daily_data_id x = row_id day) (feeders_tbl r1))
                   else None);
                r2 = called (SelectTurbines (row_id day)) r1;
                to = outcome_of r (SelectTurbines (row_id day))
            in if to = Throws then (None, r2)
               else
                 (let turbinesData =
                        (if to = Succeeds
                         then Some (filter (\<lambda>x. t_daily_data_id x = row_id day)
                                      (turbines_tbl r2))
                         else None);
                      production =
                        (case turbinesData of
                           None \<Rightarrow> 0
                         | Some ts \<Rightarrow>
                             foldl (\<lambda>production t.
                                      let prev = parseFloatOr0 (previous_reading t);
                                          pres = parseFloatOr0 (present_reading t)
                                      in production + (pres - prev) / 1000) 0 ts);
                      exportVal =
                        (case feedersData of
                           None \<Rightarrow> 0
                         | Some fs \<Rightarrow>
                             foldl (\<lambda>exportVal f.
                                      let start = parseFloatOr0 (start_reading f);
                                          end = parseFloatOr0 (end_reading f)
                                      in exportVal + (end - start) / 1000) 0 fs);
                      summary = \<lparr>s_id = row_id day, s_dateKey = date_key day,
                                 s_production = production, s_exportVal = exportVal,
                                 s_consumption = production - exportVal\<rparr>
                  in case summaries rest r2 of
                       (None, r3) \<Rightarrow> (None, r3)
                     | (Some ss, r3) \<Rightarrow> (Some (summary # ss), r3))))"

text \<open>
  \<^verbatim>\<open>fetchMonthDaysFromSupabase\<close>. The column \<^verbatim>\<open>date_key\<close> is a text column: the
  two range filters compare texts. Bounds that are not modelled select no row.
\<close>

definition fetchMonthDaysFromSupabase ::
  "string \<Rightarrow> string \<Rightarrow> Remote \<Rightarrow> DaySummary list \<times> Remote" where
  "fetchMonthDaysFromSupabase userId mk r =
     (case monthBounds mk of
        None \<Rightarrow> ([], r)
      | Some (monthStart, nextMonthStart) \<Rightarrow>
          (let r1 = called (SelectMonth userId monthStart nextMonthStart) r
           in case outcome_of r (SelectMonth userId monthStart nextMonthStart) of
                Throws \<Rightarrow> ([], console_error ''Error fetching month days:'' r1)
              | Errors \<Rightarrow> ([], console_error ''Error fetching month days:'' r1)
              | Succeeds \<Rightarrow>
                  (let dailyData =
                         rev (sort_key date_key
                                (filter (\<lambda>d. user_id d = userId \<and> monthStart \<le> date_key d
                                                \<and> date_key d < nextMonthStart) (daily_data r1)))
                   in case summaries dailyData r1 of
                        (None, r2) \<Rightarrow> ([], console_error ''Error fetching month days:'' r2)
                      | (Some ss, r2) \<Rightarrow> (ss, r2))))"


section \<open>Loading, saving and deleting a day\<close>

text \<open>
  \<^verbatim>\<open>loadDay\<close> of the day context: the record handed to \<^verbatim>\<open>setDay\<close>. \<open>user\<close> is
  \<^verbatim>\<open>user?.id\<close>. \<^verbatim>\<open>fetchDayFromSupabase\<close> catches every throw itself, and the
  linking steps raise nothing on the records it returns, so the \<^verbatim>\<open>catch\<close> of
  \<^verbatim>\<open>loadDay\<close> is never entered. The linking updates the fetched record in place.
\<close>

definition loadDay ::
  "int \<Rightarrow> string option \<Rightarrow> string \<Rightarrow> Storage \<Rightarrow> Remote \<Rightarrow> DayData \<times> Remote" where
  "loadDay tz user dk s r =
     (let data = getDayDataWithLinkedValues tz s dk
      in case user of
           None \<Rightarrow> (data, r)
         | Some uid \<Rightarrow>
             if uid = [] then (data, r)
             else
               (case fetchDayFromSupabase uid dk r of
                  (None, r1) \<Rightarrow> (data, r1)
                | (Some cloudData, r1) \<Rightarrow>
                    (let prevDateKey = getPreviousDateKey tz dk
                     in if prevDateKey = [] then (cloudData, r1)
                        else
                          (case fetchDayFromSupabase uid prevDateKey r1 of
                             (None, r2) \<Rightarrow> (cloudData, r2)
                           | (Some prevCloudData, r2) \<Rightarrow>
                               (let cloudFeeders =
                                      foldl (\<lambda>cf f.
                                               let prevEnd = Option.bind
                                                     (feeders prevCloudData f) end'
                                               in if truthy prevEnd
                                                     \<and> \<not> truthy (Option.bind (cf f) start)
                                                  then cf (f \<mapsto> (spreadFeeder (cf f))
                                                                    \<lparr>start := prevEnd\<rparr>)
                                                  else cf)
                                        (feeders cloudData) FEEDERS;
                                    cloudTurbines =
                                      foldl (\<lambda>ct t.
                                               let prevPresent = Option.bind
                                                     (turbines prevCloudData t) present
                                               in if truthy prevPresent
                                                     \<and> \<not> truthy (Option.bind (ct t) previous)
                                                  then ct (t \<mapsto> (spreadTurbine (ct t))
                                                                    \<lparr>previous := prevPresent\<rparr>)
                                                  else ct)
                                        (turbines cloudData) TURBINES
                                in (cloudData\<lparr>feeders := cloudFeeders,
                                              turbines := cloudTurbines\<rparr>, r2))))))"

text \<open>
  \<^verbatim>\<open>saveDay\<close> of the day context, on the record \<open>day\<close> and the date \<open>dk\<close> being
  edited: \<open>Inl\<close> is the rejection of the promise. \<^verbatim>\<open>syncDayToSupabase\<close> catches
  every throw itself, so the \<^verbatim>\<open>catch\<close> around its call has nothing left to catch.
\<close>

definition saveDay ::
  "string option \<Rightarrow> DayData \<Rightarrow> string \<Rightarrow> Storage \<Rightarrow> Remote
     \<Rightarrow> (js_error + unit) \<times> Storage \<times> Remote" where
  "saveDay user day dk s r =
     (let dayToSave = day\<lparr>dateKey := dk\<rparr>
      in case saveDayData s dayToSave of
           Inl e \<Rightarrow> (Inl e, s, r)
         | Inr s1 \<Rightarrow>
             (case user of
                None \<Rightarrow> (Inr (), s1, r)
              | Some uid \<Rightarrow>
                  if uid = [] then (Inr (), s1, r)
                  else (case syncDayToSupabase uid dayToSave r of
                          (ok, r1) \<Rightarrow> (Inr (), s1, r1))))"

text \<open>
  \<^verbatim>\<open>confirmDelete\<close> of the month list: the notice shown (\<open>None\<close> when the delete lock
  is held and nothing is done), and the two stores.
\<close>

datatype notice = ShowSuccess | ShowError

definition confirmDelete ::
  "bool \<Rightarrow> DaySummary \<Rightarrow> Storage \<Rightarrow> Remote \<Rightarrow> notice option \<times> Storage \<times> Remote" where
  "confirmDelete locked day s r =
     (if locked then (None, s, r)
      else case deleteDayFromSupabase (s_id day) r of
             (True, r1) \<Rightarrow>
               (case deleteDayData s (s_dateKey day) of
                  (Inl e, s1) \<Rightarrow> (Some ShowError, s1, r1)
                | (Inr u, s1) \<Rightarrow> (Some ShowSuccess, s1, r1))
           | (False, r1) \<Rightarrow> (Some ShowError, s, r1))"


section \<open>The monthly sheet of the Excel report\<close>

record MonthlyStats =
  month :: string
  m_production :: number
  exportTotal :: number
  withdrawalTotal :: number
  hasExport :: bool
  hasWithdrawal :: bool
  m_consumption :: number
  m_gasConsumed :: number
  daysCount :: nat










section \<open>Properties of records and example states\<close>

text \<open>
  A collection is complete when it has an entry, with every field defined, for each
  identifier of the fixed list.
\<close>

definition completeFeeders :: "(string \<rightharpoonup> FeederData) \<Rightarrow> bool" where
  "completeFeeders m \<longleftrightarrow>
     list_all (\<lambda>f. case m f of
                     None \<Rightarrow> False
                   | Some fd \<Rightarrow> start fd \<noteq> None \<and> end' fd \<noteq> None) FEEDERS"

definition completeTurbines :: "(string \<rightharpoonup> TurbineData) \<Rightarrow> bool" where
  "completeTurbines m \<longleftrightarrow>
     list_all (\<lambda>t. case m t of
                     None \<Rightarrow> False
                   | Some td \<Rightarrow> previous td \<noteq> None \<and> present td \<noteq> None \<and> hours td \<noteq> None)
       TURBINES"

definition complete :: "DayData \<Rightarrow> bool" where
  "complete day \<longleftrightarrow> completeFeeders (feeders day) \<and> completeTurbines (turbines day)"

definition nowhere :: "string \<Rightarrow> bool" where
  "nowhere k \<longleftrightarrow> False"

text \<open>The empty store, on which no operation fails.\<close>

definition emptyStorage :: Storage where
  "emptyStorage =
     \<lparr>items = Map.empty, getFails = nowhere, setFails = nowhere, removeFails = nowhere\<rparr>"

text \<open>A store holding one day whose feeder collection has a single entry.\<close>

definition partialStorage :: Storage where
  "partialStorage =
     emptyStorage
       \<lparr>items := [storageKey ''2026-01-20'' \<mapsto>
                    Doc (DayDoc \<lparr>sd_dateKey = Some ''2026-01-20'',
                                  sd_feeders = Some [''F2'' \<mapsto> \<lparr>start = Some ''500'',
                                                                 end' = Some ''300''\<rparr>],
                                  sd_turbines = None\<rparr>)]\<rparr>"

definition always :: "outcome \<Rightarrow> rcall \<Rightarrow> outcome" where
  "always out c = out"

text \<open>
  A database with one day of one user: feeder F2 read 500 at the start and 300 at the
  end, turbine A read 1000 before and 1100 now. Every request succeeds.
\<close>

definition oneDayRemote :: Remote where
  "oneDayRemote =
     \<lparr>daily_data = [\<lparr>row_id = ''d1'', user_id = ''u1'', date_key = ''2026-01-20''\<rparr>],
      feeders_tbl = [\<lparr>f_daily_data_id = ''d1'', feeder_name = ''F2'',
                      start_reading = Some ''500'', end_reading = Some ''300''\<rparr>],
      turbines_tbl = [\<lparr>t_daily_data_id = ''d1'', turbine_name = ''A'',
                       previous_reading = Some ''1000'', present_reading = Some ''1100'',
                       hours_reading = Some ''24''\<rparr>],
      outcome_of = always Succeeds, calls = [], console = [], next_id = 0\<rparr>"







definition everywhere :: "string \<Rightarrow> bool" where
  "everywhere k \<longleftrightarrow> True"

text \<open>A store that rejects every write, and a database on which every request throws.\<close>

definition readOnlyStorage :: Storage where
  "readOnlyStorage = emptyStorage\<lparr>setFails := everywhere\<rparr>"

definition unreachableRemote :: Remote where
  "unreachableRemote = oneDayRemote\<lparr>outcome_of := always Throws\<rparr>"

text \<open>The day of the concrete scenario: F2 from 500 to 300, turbine A from 1000 to 1100.\<close>

definition scenarioDay :: DayData where
  "scenarioDay =
     \<lparr>dateKey = ''2026-01-20'',
      feeders = [''F2'' \<mapsto> \<lparr>start = Some ''500'', end' = Some ''300''\<rparr>],
      turbines = [''A'' \<mapsto> \<lparr>previous = Some ''1000'', present = Some ''1100'',
                             hours = Some ''24''\<rparr>]\<rparr>"


text \<open>Every request succeeds except the deletion of the turbine rows of day d1.\<close>

definition turbineDeleteFails :: "rcall \<Rightarrow> outcome" where
  "turbineDeleteFails c = (if c = DeleteTurbines ''d1'' then Errors else Succeeds)"

definition oneDayStorage :: Storage where
  "oneDayStorage =
     emptyStorage
       \<lparr>items := [storageKey ''2026-01-20'' \<mapsto> stringifyDay scenarioDay,
                  listKey \<mapsto> Doc (IndexDoc [''2026-01-20''])]\<rparr>"

definition oneDaySummary :: DaySummary where
  "oneDaySummary =
     \<lparr>s_id = ''d1'', s_dateKey = ''2026-01-20'', s_production = 0, s_exportVal = 0,
      s_consumption = 0\<rparr>"


text \<open>
  Every record listed in the index carries the date it is stored under. This holds in the
  empty store and is kept by \<open>saveDayData\<close>, which builds the key from the date of the
  record it writes.
\<close>

definition indexedByDate :: "Storage \<Rightarrow> bool" where
  "indexedByDate s \<longleftrightarrow>
     (case getDayIndex s of
        None \<Rightarrow> True
      | Some idx \<Rightarrow> list_all (\<lambda>k. dateKey (getDayData s k) = k) idx)"




text \<open>A withdrawal day in the month of the scenario day.\<close>

definition withdrawalDay :: DayData where
  "withdrawalDay =
     \<lparr>dateKey = ''2026-01-21'',
      feeders = [''F2'' \<mapsto> \<lparr>start = Some ''100'', end' = Some ''300''\<rparr>],
      turbines = Map.empty\<rparr>"




section \<open>Evaluation of the parsers\<close>

lemmas parse_defs = Number_js_def trim_def is_ws_def scan_radix_def split_sign_def
  scan_decimal_def scan_exponent_def is_digit_def nat_of_digits_def digit_val_def pos_def
  parseInt_def parseFloat_def radix_val_def

lemma foldl_add_sum_list:
  "foldl (\<lambda>acc x. acc + g x) (a::real) xs = a + (\<Sum>x\<leftarrow>xs. g x)"
  by (induction xs arbitrary: a) simp_all

lemma num_undefined: "num None = 0"
  by (simp add: num_def)

lemma num_empty: "num (Some '''') = 0"
  by (simp add: num_def Number_js_def trim_def)


section \<open>Consumption\<close>

text \<open>
  Claim C2. For every day record the consumption shown is the turbine net production minus
  the feeder net flow: in the statistics of the Excel export and the chart
  (\<open>computeDayStats\<close>), on the calculations screen (\<open>calculations\<close>) and on the
  history screen (\<open>currentDayStats\<close>). The production is the sum of present minus
  previous over the four turbines, the flow the sum of start minus end over the four
  feeders; an undefined, empty or unparsable reading counts as 0. Each of these functions
  takes the day record alone, which has no consumption field: nothing is read from storage.
\<close>

theorem consumption_recomputed:
  "consumption (computeDayStats day) = turbineProductionMwh day - feederExport day
   \<and> c_consumption (calculations day) = turbineProductionMwh day - feederExport day
   \<and> currentDayStats day
       = (turbineProductionMwh day, feederExport day,
          turbineProductionMwh day - feederExport day, feederExport day \<ge> 0)
   \<and> turbineProductionMwh day
       = (\<Sum>t\<leftarrow>TURBINES. num (Option.bind (turbines day t) present)
                          - num (Option.bind (turbines day t) previous))
   \<and> feederExport day
       = (\<Sum>f\<leftarrow>FEEDERS. num (Option.bind (feeders day f) start)
                         - num (Option.bind (feeders day f) end'))
   \<and> num None = 0 \<and> num (Some '''') = 0
   \<and> (Number_js s = None \<longrightarrow> num (Some s) = 0)"
proof -
  have t: "turbineProductionMwh day
       = (\<Sum>t\<leftarrow>TURBINES. num (Option.bind (turbines day t) present)
                          - num (Option.bind (turbines day t) previous))"
    unfolding turbineProductionMwh_def Let_def by (simp add: foldl_add_sum_list)
  have f: "feederExport day
       = (\<Sum>f\<leftarrow>FEEDERS. num (Option.bind (feeders day f) start)
                         - num (Option.bind (feeders day f) end'))"
    unfolding feederExport_def Let_def by (simp add: foldl_add_sum_list)
  have c: "consumption (computeDayStats day) = turbineProductionMwh day - feederExport day"
    by (simp add: computeDayStats_def Let_def)
  have k: "c_consumption (calculations day) = turbineProductionMwh day - feederExport day"
    by (simp add: calculations_def Let_def)
  have h: "currentDayStats day
       = (turbineProductionMwh day, feederExport day,
          turbineProductionMwh day - feederExport day, feederExport day \<ge> 0)"
    by (simp add: currentDayStats_def Let_def)
  have n: "Number_js s = None \<longrightarrow> num (Some s) = 0"
    by (simp add: num_def)
  from t f c k h n num_undefined num_empty show ?thesis by blast
qed

theorem consumption_recomputed_witness:
  "Number_js ''abc'' = None \<and> num (Some ''abc'') = 0
   \<and> consumption (computeDayStats
        \<lparr>dateKey = ''2026-01-20'',
         feeders = [''F2'' \<mapsto> \<lparr>start = Some ''500'', end' = Some ''300''\<rparr>],
         turbines = [''A'' \<mapsto> \<lparr>previous = Some ''1000'', present = Some ''1100'',
                                hours = Some ''24''\<rparr>]\<rparr>) = - 100"
proof -
  let ?day = "\<lparr>dateKey = ''2026-01-20'',
         feeders = [''F2'' \<mapsto> \<lparr>start = Some ''500'', end' = Some ''300''\<rparr>],
         turbines = [''A'' \<mapsto> \<lparr>previous = Some ''1000'', present = Some ''1100'',
                                hours = Some ''24''\<rparr>]\<rparr>"
  have a: "Number_js ''abc'' = None"
    by (simp add: parse_defs)
  have p: "turbineProductionMwh ?day = 100"
    by (simp add: turbineProductionMwh_def TURBINES_def num_def parse_defs)
  have e: "feederExport ?day = 200"
    by (simp add: feederExport_def FEEDERS_def num_def parse_defs)
  show ?thesis
    using a p e consumption_recomputed [of ?day "''abc''"] by simp
qed



section \<open>The hours clamp\<close>

lemma String_int_roundtrip_upto:
  "\<forall>n \<in> set [1..24]. parseInt (String_int n) = Some n \<and> String_int n \<noteq> []"
  by code_simp

lemma String_int_roundtrip:
  assumes "1 \<le> n" "n \<le> 24"
  shows "parseInt (String_int n) = Some n"
  using assms String_int_roundtrip_upto by simp

lemma clampHours_literals:
  "clampHours ''0'' = ''1''" "clampHours '''' = ''24''" "clampHours ''25'' = ''24''"
  "clampHours ''-3'' = ''1''" "parseInt ''1'' = Some 1" "parseInt ''24'' = Some 24"
  "String_int 1 = ''1''" "String_int 24 = ''24''"
  by (simp_all add: clampHours_def parse_defs String_int_def digits_of.simps digit_char_def)

text \<open>
  Claim C7. \<open>clampHours\<close> maps every string to the decimal text of an integer between
  1 and 24, which reads back as that integer. The empty string gives 24; a string without
  a leading integer, or with one that is zero or negative, gives 1; an integer above 24
  gives 24. In particular "0" gives "1", "" gives "24", "25" gives "24" and "-3" gives "1".
\<close>

theorem clampHours_range:
  "(\<exists>n. 1 \<le> n \<and> n \<le> 24 \<and> clampHours val = String_int n
        \<and> parseInt (clampHours val) = Some n)
   \<and> clampHours '''' = ''24''
   \<and> (val \<noteq> [] \<and> parseInt val = None \<longrightarrow> clampHours val = ''1'')
   \<and> (\<forall>n. parseInt val = Some n \<and> n \<le> 0 \<longrightarrow> clampHours val = ''1'')
   \<and> (\<forall>n. parseInt val = Some n \<and> 24 < n \<longrightarrow> clampHours val = ''24'')
   \<and> clampHours ''0'' = ''1'' \<and> clampHours ''25'' = ''24'' \<and> clampHours ''-3'' = ''1''"
proof -
  have range: "\<exists>n. 1 \<le> n \<and> n \<le> 24 \<and> clampHours val = String_int n
        \<and> parseInt (clampHours val) = Some n"
  proof (cases "val = []")
    case True
    then show ?thesis
      using clampHours_literals by (intro exI [of _ 24]) (simp add: clampHours_def)
  next
    case False
    show ?thesis
    proof (cases "parseInt val")
      case None
      with False show ?thesis
        using clampHours_literals by (intro exI [of _ 1]) (simp add: clampHours_def)
    next
      case (Some n)
      consider "n < 1" | "24 < n" | "1 \<le> n" "n \<le> 24" by linarith
      then show ?thesis
      proof cases
        case 1
        with False Some show ?thesis
          using clampHours_literals by (intro exI [of _ 1]) (simp add: clampHours_def)
      next
        case 2
        with False Some show ?thesis
          using clampHours_literals by (intro exI [of _ 24]) (simp add: clampHours_def)
      next
        case 3
        with False Some show ?thesis
          using String_int_roundtrip [of n] by (intro exI [of _ n]) (simp add: clampHours_def)
      qed
    qed
  qed
  have empty: "parseInt [] = None"
    by (simp add: parseInt_def split_sign_def)
  show ?thesis
    using range clampHours_literals empty by (auto simp: clampHours_def)
qed

theorem clampHours_range_witness:
  "(''abc'' \<noteq> [] \<and> parseInt ''abc'' = None \<and> clampHours ''abc'' = ''1'')
   \<and> (parseInt ''-3'' = Some (- 3) \<and> (- 3 :: int) \<le> 0 \<and> clampHours ''-3'' = ''1'')
   \<and> (parseInt ''25'' = Some 25 \<and> (24 :: int) < 25 \<and> clampHours ''25'' = ''24'')"
proof -
  have a: "parseInt ''abc'' = None" "parseInt ''-3'' = Some (- 3)" "parseInt ''25'' = Some 25"
    by (simp_all add: parse_defs)
  show ?thesis
    using a clampHours_range [of "''abc''"] clampHours_range [of "''-3''"]
      clampHours_range [of "''25''"] by simp
qed


section \<open>The gas tiers\<close>

text \<open>
  Claim C1. \<open>gasForTurbine\<close> multiplies the energy by a factor that depends on the
  generation rate alone, with each boundary belonging to the lower tier: 1000 up to 3,
  700 above 3 and up to 5, 500 above 5 and up to 8, 420 above 8. For an energy of 10 the
  rates 3, 3.0001, 5, 5.0001, 8 and 8.0001 give 10000, 7000, 7000, 5000, 5000 and 4200.
\<close>

theorem gasForTurbine_tiers:
  "(r \<le> 3 \<longrightarrow> gasForTurbine d r = d * 1000)
   \<and> (3 < r \<and> r \<le> 5 \<longrightarrow> gasForTurbine d r = d * 700)
   \<and> (5 < r \<and> r \<le> 8 \<longrightarrow> gasForTurbine d r = d * 500)
   \<and> (8 < r \<longrightarrow> gasForTurbine d r = d * 420)
   \<and> gasForTurbine 10 3 = 10000 \<and> gasForTurbine 10 3.0001 = 7000
   \<and> gasForTurbine 10 5 = 7000 \<and> gasForTurbine 10 5.0001 = 5000
   \<and> gasForTurbine 10 8 = 5000 \<and> gasForTurbine 10 8.0001 = 4200"
  by (simp add: gasForTurbine_def)

theorem gasForTurbine_tiers_witness:
  "((2::real) \<le> 3 \<and> gasForTurbine 10 2 = 10000)
   \<and> ((3::real) < 4 \<and> (4::real) \<le> 5 \<and> gasForTurbine 10 4 = 7000)
   \<and> ((5::real) < 6 \<and> (6::real) \<le> 8 \<and> gasForTurbine 10 6 = 5000)
   \<and> ((8::real) < 9 \<and> gasForTurbine 10 9 = 4200)"
  using gasForTurbine_tiers [where r = 2 and d = 10] gasForTurbine_tiers [where r = 4 and d = 10]
    gasForTurbine_tiers [where r = 6 and d = 10] gasForTurbine_tiers [where r = 9 and d = 10]
  by simp


section \<open>Completeness of records at the key level\<close>

lemma complete_defaultDay: "complete (defaultDay dk)"
  by (simp add: complete_def completeFeeders_def completeTurbines_def defaultDay_def
      FEEDERS_def TURBINES_def)

lemma completeFeeders_filled:
  "completeFeeders (foldl (\<lambda>m f. m(f \<mapsto> \<lparr>start = Some (a f), end' = Some (b f)\<rparr>)) m0 FEEDERS)"
  by (simp add: completeFeeders_def FEEDERS_def)

lemma completeTurbines_filled:
  "completeTurbines
     (foldl (\<lambda>m t. m(t \<mapsto> \<lparr>previous = Some (a t), present = Some (b t), hours = Some (c t)\<rparr>))
        m0 TURBINES)"
  by (simp add: completeTurbines_def TURBINES_def)

lemma complete_fetchDay:
  assumes "fetchDayFromSupabase userId dk r = (Some day, r')"
  shows "complete day"
proof -
  from assms obtain a b c d e where
    "feeders day = foldl (\<lambda>m f. m(f \<mapsto> \<lparr>start = Some (a f), end' = Some (b f)\<rparr>)) Map.empty FEEDERS"
    "turbines day = foldl (\<lambda>m t. m(t \<mapsto> \<lparr>previous = Some (c t), present = Some (d t),
        hours = Some (e t)\<rparr>)) Map.empty TURBINES"
    unfolding fetchDayFromSupabase_def Let_def
    by (fastforce split: outcome.splits option.splits if_splits)
  then show ?thesis
    by (simp add: complete_def completeFeeders_filled completeTurbines_filled)
qed


lemma defaultDay_entries:
  "f \<in> set FEEDERS \<Longrightarrow> feeders (defaultDay dk) f = Some \<lparr>start = Some '''', end' = Some ''''\<rparr>"
  "t \<in> set TURBINES \<Longrightarrow> turbines (defaultDay dk) t
     = Some \<lparr>previous = Some '''', present = Some '''', hours = Some ''24''\<rparr>"
  by (auto simp: defaultDay_def FEEDERS_def TURBINES_def)

lemma fetchDay_no_rows:
  assumes "fetchDayFromSupabase userId dk r = (Some day, r')"
    and "feeders_tbl r = []" and "turbines_tbl r = []"
  shows "day = defaultDay dk"
proof -
  have f: "foldl (\<lambda>m f. m(f \<mapsto> \<lparr>start = Some '''', end' = Some ''''\<rparr>)) Map.empty FEEDERS
      = map_of (map (\<lambda>f. (f, \<lparr>start = Some '''', end' = Some ''''\<rparr>)) FEEDERS)"
    by (rule ext) (simp add: FEEDERS_def)
  have t: "foldl (\<lambda>m t. m(t \<mapsto> \<lparr>previous = Some '''', present = Some '''', hours = Some ''24''\<rparr>))
             Map.empty TURBINES
      = map_of (map (\<lambda>t. (t, \<lparr>previous = Some '''', present = Some '''',
                                 hours = Some ''24''\<rparr>)) TURBINES)"
    by (rule ext) (simp add: TURBINES_def)
  from assms show ?thesis
    unfolding fetchDayFromSupabase_def Let_def
    by (auto simp: called_def console_error_def orElse_def defaultDay_def f t
        split: outcome.splits option.splits if_splits)
qed

lemma getDayData_no_doc:
  assumes "\<forall>d. getItem s (storageKey dk) \<noteq> Inr (Some (Doc d))"
  shows "getDayData s dk = defaultDay dk"
  using assms
  by (auto simp: getDayData_def split: sum.splits option.splits raw.splits)

lemma getDayData_doc:
  assumes "getItem s (storageKey dk) = Inr (Some (Doc d))"
  shows "complete (getDayData s dk) \<longleftrightarrow>
           (case sd_feeders (asStoredDay d) of None \<Rightarrow> True | Some m \<Rightarrow> completeFeeders m)
         \<and> (case sd_turbines (asStoredDay d) of None \<Rightarrow> True | Some m \<Rightarrow> completeTurbines m)"
  using assms complete_defaultDay [of dk]
  by (auto simp: getDayData_def spreadDay_def complete_def split: option.splits)

lemma storage_examples:
  "getItem emptyStorage k = Inr None"
  "getItem partialStorage (storageKey ''2026-01-20'')
     = Inr (Some (Doc (DayDoc \<lparr>sd_dateKey = Some ''2026-01-20'',
                                  sd_feeders = Some [''F2'' \<mapsto> \<lparr>start = Some ''500'',
                                                                 end' = Some ''300''\<rparr>],
                                  sd_turbines = None\<rparr>)))"
  by (simp_all add: getItem_def emptyStorage_def partialStorage_def nowhere_def)

text \<open>
  Claim C10, as amended. The default record and every record fetched from the remote
  mirror have an entry, with every field defined, for each of the four feeders and each of
  the four turbines; the default record holds empty readings and 24 hours, and so does a
  fetched record whose day has no child rows. A local read returns the default record when nothing is stored under
  the key, when the read fails or when the text does not parse. When a document is stored,
  the read takes each collection the document carries as it is stored and defaults only a
  collection that is absent: the record read is complete exactly when the stored
  collections are.
\<close>

theorem records_complete_at_key_level:
  "complete (defaultDay dk)
   \<and> (\<forall>f\<in>set FEEDERS.
         feeders (defaultDay dk) f = Some \<lparr>start = Some '''', end' = Some ''''\<rparr>)
   \<and> (\<forall>t\<in>set TURBINES.
         turbines (defaultDay dk) t
           = Some \<lparr>previous = Some '''', present = Some '''', hours = Some ''24''\<rparr>)
   \<and> (\<forall>day r'. fetchDayFromSupabase userId dk r = (Some day, r') \<longrightarrow> complete day)
   \<and> (\<forall>day r'. fetchDayFromSupabase userId dk r = (Some day, r')
           \<and> feeders_tbl r = [] \<and> turbines_tbl r = [] \<longrightarrow> day = defaultDay dk)
   \<and> ((\<forall>d. getItem s (storageKey dk) \<noteq> Inr (Some (Doc d)))
        \<longrightarrow> getDayData s dk = defaultDay dk)
   \<and> (\<forall>d. getItem s (storageKey dk) = Inr (Some (Doc d)) \<longrightarrow>
         (complete (getDayData s dk) \<longleftrightarrow>
            (case sd_feeders (asStoredDay d) of None \<Rightarrow> True | Some m \<Rightarrow> completeFeeders m)
          \<and> (case sd_turbines (asStoredDay d) of None \<Rightarrow> True
              | Some m \<Rightarrow> completeTurbines m)))"
  using complete_defaultDay complete_fetchDay getDayData_no_doc getDayData_doc
    defaultDay_entries [of _ dk] fetchDay_no_rows [of userId dk r]
  by (intro conjI ballI allI impI) blast+

lemma fetch_oneDay:
  "fst (fetchDayFromSupabase ''u1'' ''2026-01-20'' oneDayRemote)
     = Some \<lparr>dateKey = ''2026-01-20'',
             feeders = [''F2'' \<mapsto> \<lparr>start = Some ''500'', end' = Some ''300''\<rparr>,
                        ''F3'' \<mapsto> \<lparr>start = Some '''', end' = Some ''''\<rparr>,
                        ''F4'' \<mapsto> \<lparr>start = Some '''', end' = Some ''''\<rparr>,
                        ''F5'' \<mapsto> \<lparr>start = Some '''', end' = Some ''''\<rparr>],
             turbines = [''A'' \<mapsto> \<lparr>previous = Some ''1000'', present = Some ''1100'',
                                   hours = Some ''24''\<rparr>,
                         ''B'' \<mapsto> \<lparr>previous = Some '''', present = Some '''', hours = Some ''24''\<rparr>,
                         ''C'' \<mapsto> \<lparr>previous = Some '''', present = Some '''', hours = Some ''24''\<rparr>,
                         ''S'' \<mapsto> \<lparr>previous = Some '''', present = Some '''', hours = Some ''24''\<rparr>]\<rparr>"
  by (simp add: fetchDayFromSupabase_def oneDayRemote_def always_def called_def selectDaily_def
      single_def Let_def FEEDERS_def TURBINES_def orElse_def)

theorem records_complete_at_key_level_witness:
  "fst (fetchDayFromSupabase ''u1'' ''2026-01-20'' oneDayRemote) \<noteq> None
   \<and> complete (the (fst (fetchDayFromSupabase ''u1'' ''2026-01-20'' oneDayRemote)))
   \<and> getDayData emptyStorage ''2026-01-20'' = defaultDay ''2026-01-20''
   \<and> getItem partialStorage (storageKey ''2026-01-20'') \<noteq> Inr None
   \<and> \<not> completeFeeders (feeders (getDayData partialStorage ''2026-01-20''))
   \<and> fst (fetchDayFromSupabase ''u1'' ''2026-01-20''
            (oneDayRemote\<lparr>feeders_tbl := [], turbines_tbl := []\<rparr>))
       = Some (defaultDay ''2026-01-20'')"
proof -
  obtain day where day: "fst (fetchDayFromSupabase ''u1'' ''2026-01-20'' oneDayRemote) = Some day"
    using fetch_oneDay by blast
  then have "fetchDayFromSupabase ''u1'' ''2026-01-20'' oneDayRemote
      = (Some day, snd (fetchDayFromSupabase ''u1'' ''2026-01-20'' oneDayRemote))"
    by (metis prod.collapse)
  with records_complete_at_key_level [of "''2026-01-20''" "''u1''" oneDayRemote emptyStorage]
  have a: "complete day" by blast
  have b: "getDayData emptyStorage ''2026-01-20'' = defaultDay ''2026-01-20''"
    using records_complete_at_key_level [of "''2026-01-20''" "''u1''" oneDayRemote emptyStorage]
    by (simp add: storage_examples)
  have "\<not> complete (getDayData partialStorage ''2026-01-20'')"
    using records_complete_at_key_level [of "''2026-01-20''" "''u1''" oneDayRemote partialStorage]
    by (simp add: storage_examples asStoredDay_def completeFeeders_def FEEDERS_def)
  then have c: "\<not> completeFeeders (feeders (getDayData partialStorage ''2026-01-20''))"
    by (simp add: complete_def getDayData_def storage_examples asStoredDay_def spreadDay_def
        completeTurbines_def TURBINES_def defaultDay_def)
  have "fst (fetchDayFromSupabase ''u1'' ''2026-01-20''
            (oneDayRemote\<lparr>feeders_tbl := [], turbines_tbl := []\<rparr>)) \<noteq> None"
    by (simp add: fetchDayFromSupabase_def oneDayRemote_def always_def called_def
        selectDaily_def single_def Let_def)
  then obtain bare where bare: "fetchDayFromSupabase ''u1'' ''2026-01-20''
            (oneDayRemote\<lparr>feeders_tbl := [], turbines_tbl := []\<rparr>)
      = (Some bare, snd (fetchDayFromSupabase ''u1'' ''2026-01-20''
            (oneDayRemote\<lparr>feeders_tbl := [], turbines_tbl := []\<rparr>)))"
    by (metis not_None_eq prod.collapse)
  have "\<forall>d. (\<exists>r'. fetchDayFromSupabase ''u1'' ''2026-01-20''
            (oneDayRemote\<lparr>feeders_tbl := [], turbines_tbl := []\<rparr>) = (Some d, r'))
          \<longrightarrow> d = defaultDay ''2026-01-20''"
    using records_complete_at_key_level [of "''2026-01-20''" "''u1''"
      "oneDayRemote\<lparr>feeders_tbl := [], turbines_tbl := []\<rparr>" emptyStorage]
    by simp
  with bare have "bare = defaultDay ''2026-01-20''" by blast
  with bare have e: "fst (fetchDayFromSupabase ''u1'' ''2026-01-20''
            (oneDayRemote\<lparr>feeders_tbl := [], turbines_tbl := []\<rparr>))
       = Some (defaultDay ''2026-01-20'')"
    by (metis fst_conv)
  from day a b c e show ?thesis
    by (simp add: storage_examples)
qed

text \<open>
  Claim C10 as stated fails for a local read: a stored day whose feeder collection has the
  single entry F2 is read back with that collection, without F3, F4 and F5.
\<close>

theorem local_read_partial_counterexample:
  "\<not> complete (getDayData partialStorage ''2026-01-20'')"
  by (simp add: getDayData_def storage_examples asStoredDay_def spreadDay_def complete_def
      completeFeeders_def FEEDERS_def)


section \<open>Linking a day to the day before\<close>

lemma prev_examples:
  "getPreviousDateKey 180 ''2026-01-20'' = ''2026-01-19''"
  "getPreviousDateKey 180 ''2026-03-01'' = ''2026-02-28''"
  "getPreviousDateKey 180 ''2024-03-01'' = ''2024-02-29''"
  "getPreviousDateKey 180 ''2026-01-01'' = ''2025-12-31''"
  "getPreviousDateKey (- 300) ''2026-01-20'' = ''2026-01-18''"
  "getPreviousDateKey 180 ''yesterday'' = ''''"
  "getPreviousDateKey 180 ''2026-02-30'' = ''''"
  by (simp_all add: getPreviousDateKey_def Date_new_def parseDateOnly_def dayBefore_def
      daysInMonth_def isLeap_def padStart2_def String_int_def digits_of.simps digit_char_def
      is_digit_def nat_of_digits_def digit_val_def pos_def)













lemma loadDay_local:
  "loadDay tz None dk s r = (getDayDataWithLinkedValues tz s dk, r)"
  "fst (fetchDayFromSupabase uid dk r) = None
     \<Longrightarrow> fst (loadDay tz (Some uid) dk s r) = getDayDataWithLinkedValues tz s dk"
  by (auto simp: loadDay_def Let_def split: prod.splits option.splits)











section \<open>Saving a day\<close>

lemma storageKey_not_listKey: "storageKey dk \<noteq> listKey"
  by (simp add: storageKey_def listKey_def)

lemma upsertDayIndex_items:
  "k \<noteq> listKey \<Longrightarrow> items (upsertDayIndex s dk) k = items s k"
  by (auto simp: upsertDayIndex_def setItem_def split: option.splits sum.splits if_splits)

lemma saveDayData_fails_iff:
  "(\<exists>e. saveDayData s d = Inl e) \<longleftrightarrow> setFails s (storageKey (dateKey d))"
  by (auto simp: saveDayData_def setItem_def split: sum.splits if_splits)

lemma saveDayData_committed:
  assumes "saveDayData s d = Inr s1"
  shows "items s1 (storageKey (dateKey d)) = Some (stringifyDay d)"
  using assms storageKey_not_listKey [of "dateKey d"]
  by (auto simp: saveDayData_def setItem_def upsertDayIndex_items split: sum.splits if_splits)

lemma saveDay_local_failure:
  "saveDayData s (day\<lparr>dateKey := dk\<rparr>) = Inl e \<Longrightarrow> saveDay user day dk s r = (Inl e, s, r)"
  by (simp add: saveDay_def Let_def)

lemma saveDay_local_success:
  assumes "saveDayData s (day\<lparr>dateKey := dk\<rparr>) = Inr s1"
  shows "fst (saveDay user day dk s r) = Inr () \<and> fst (snd (saveDay user day dk s r)) = s1"
  using assms
  by (simp add: saveDay_def Let_def split: option.splits prod.splits)

lemma saveDay_remote_after_local:
  assumes "calls (snd (snd (saveDay user day dk s r))) \<noteq> calls r"
  shows "fst (saveDay user day dk s r) = Inr ()
       \<and> items (fst (snd (saveDay user day dk s r))) (storageKey dk)
           = Some (stringifyDay (day\<lparr>dateKey := dk\<rparr>))"
proof (cases "saveDayData s (day\<lparr>dateKey := dk\<rparr>)")
  case (Inl e)
  with assms show ?thesis by (simp add: saveDay_local_failure)
next
  case (Inr s1)
  with saveDay_local_success [OF Inr, of user r] saveDayData_committed [OF Inr]
  show ?thesis by simp
qed

lemma upsertFeeders_console:
  "length (console r) \<le> length (console (snd (upsertFeeders i d fs r)))"
proof (induction fs arbitrary: r)
  case Nil
  then show ?case by simp
next
  case (Cons f fs)
  show ?case
    by (auto simp: Let_def called_def console_error_def split: outcome.splits
        intro!: order_trans [OF _ Cons.IH])
qed

lemma upsertTurbines_console:
  "length (console r) \<le> length (console (snd (upsertTurbines i d ts r)))"
proof (induction ts arbitrary: r)
  case Nil
  then show ?case by simp
next
  case (Cons t ts)
  show ?case
    by (auto simp: Let_def called_def console_error_def split: outcome.splits
        intro!: order_trans [OF _ Cons.IH])
qed

lemma upsertReadings_logged:
  "length (console r) \<le> length (console (snd (upsertReadings i d r)))"
  "\<not> fst (upsertReadings i d r)
     \<Longrightarrow> length (console r) < length (console (snd (upsertReadings i d r)))"
proof -
  obtain b1 r1 where f: "upsertFeeders i d FEEDERS r = (b1, r1)"
    by (cases "upsertFeeders i d FEEDERS r")
  obtain b2 r2 where t: "upsertTurbines i d TURBINES r1 = (b2, r2)"
    by (cases "upsertTurbines i d TURBINES r1")
  have a: "length (console r) \<le> length (console r1)"
    using upsertFeeders_console [of r i d FEEDERS] f by simp
  have b: "length (console r1) \<le> length (console r2)"
    using upsertTurbines_console [of r1 i d TURBINES] t by simp
  show "length (console r) \<le> length (console (snd (upsertReadings i d r)))"
    using a b f t by (cases b1; cases b2) (simp_all add: upsertReadings_def console_error_def)
  show "\<not> fst (upsertReadings i d r)
     \<Longrightarrow> length (console r) < length (console (snd (upsertReadings i d r)))"
    using a b f t by (cases b1; cases b2) (simp_all add: upsertReadings_def console_error_def)
qed

lemma syncDay_logged:
  assumes "\<not> fst (syncDayToSupabase u d r)"
  shows "length (console r) < length (console (snd (syncDayToSupabase u d r)))"
proof -
  have c: "\<And>i q. console q = console r \<Longrightarrow> \<not> fst (upsertReadings i d q)
      \<Longrightarrow> length (console r) < length (console (snd (upsertReadings i d q)))"
    using upsertReadings_logged(2) by metis
  show ?thesis
    using assms unfolding syncDayToSupabase_def Let_def
    by (auto simp: called_def console_error_def split: outcome.splits option.splits intro!: c)
qed

text \<open>
  Claim C5. \<open>saveDay\<close> writes the record locally first. The local save fails exactly
  when the store rejects the write of the record, and that failure is the result of
  \<open>saveDay\<close>: the store is as before and the remote mirror is not touched, no request
  included. When the local save succeeds, \<open>saveDay\<close> succeeds whatever the remote
  requests do, and the store it leaves is the one the local save produced, holding the
  record under its key. A request reaches the remote mirror only after the record is
  written. A mirror step that fails leaves a line on the console and nothing else.
\<close>

theorem save_failure_isolation:
  "((\<exists>e. saveDayData s (day\<lparr>dateKey := dk\<rparr>) = Inl e) \<longleftrightarrow> setFails s (storageKey dk))
   \<and> (\<forall>e. saveDayData s (day\<lparr>dateKey := dk\<rparr>) = Inl e
          \<longrightarrow> saveDay user day dk s r = (Inl e, s, r))
   \<and> (\<forall>s1. saveDayData s (day\<lparr>dateKey := dk\<rparr>) = Inr s1
          \<longrightarrow> fst (saveDay user day dk s r) = Inr ()
              \<and> fst (snd (saveDay user day dk s r)) = s1
              \<and> items s1 (storageKey dk) = Some (stringifyDay (day\<lparr>dateKey := dk\<rparr>)))
   \<and> (calls (snd (snd (saveDay user day dk s r))) \<noteq> calls r
        \<longrightarrow> fst (saveDay user day dk s r) = Inr ()
            \<and> items (fst (snd (saveDay user day dk s r))) (storageKey dk)
                = Some (stringifyDay (day\<lparr>dateKey := dk\<rparr>)))
   \<and> (\<forall>uid. \<not> fst (syncDayToSupabase uid (day\<lparr>dateKey := dk\<rparr>) r)
          \<longrightarrow> length (console r)
              < length (console (snd (syncDayToSupabase uid (day\<lparr>dateKey := dk\<rparr>) r))))"
proof -
  have a: "(\<exists>e. saveDayData s (day\<lparr>dateKey := dk\<rparr>) = Inl e) \<longleftrightarrow> setFails s (storageKey dk)"
    using saveDayData_fails_iff [of s "day\<lparr>dateKey := dk\<rparr>"] by simp
  have b: "\<forall>s1. saveDayData s (day\<lparr>dateKey := dk\<rparr>) = Inr s1
          \<longrightarrow> fst (saveDay user day dk s r) = Inr ()
              \<and> fst (snd (saveDay user day dk s r)) = s1
              \<and> items s1 (storageKey dk) = Some (stringifyDay (day\<lparr>dateKey := dk\<rparr>))"
    using saveDay_local_success [where s = s and day = day and dk = dk and user = user and r = r]
      saveDayData_committed [where s = s and d = "day\<lparr>dateKey := dk\<rparr>"] by simp
  show ?thesis
    using a b saveDay_local_failure [where s = s and day = day and dk = dk and user = user and r = r]
      saveDay_remote_after_local [where s = s and day = day and dk = dk and user = user and r = r]
      syncDay_logged
    by (intro conjI allI impI) blast+
qed

lemma scenarioDay_dateKey: "scenarioDay\<lparr>dateKey := ''2026-01-20''\<rparr> = scenarioDay"
  by (simp add: scenarioDay_def)

lemma sync_unreachable:
  "syncDayToSupabase ''u1'' scenarioDay unreachableRemote
     = (False, unreachableRemote
                 \<lparr>calls := [SelectDaily ''u1'' ''2026-01-20''],
                  console := [''Error syncing day to Supabase:'']\<rparr>)"
  by (simp add: syncDayToSupabase_def unreachableRemote_def oneDayRemote_def always_def
      scenarioDay_def called_def console_error_def Let_def)

theorem save_failure_isolation_witness:
  "setFails readOnlyStorage (storageKey ''2026-01-20'')
   \<and> saveDay (Some ''u1'') scenarioDay ''2026-01-20'' readOnlyStorage unreachableRemote
       = (Inl StorageError, readOnlyStorage, unreachableRemote)
   \<and> \<not> fst (syncDayToSupabase ''u1'' scenarioDay unreachableRemote)
   \<and> length (console unreachableRemote)
       < length (console (snd (syncDayToSupabase ''u1'' scenarioDay unreachableRemote)))
   \<and> calls (snd (snd (saveDay (Some ''u1'') scenarioDay ''2026-01-20'' emptyStorage
                         unreachableRemote))) \<noteq> calls unreachableRemote
   \<and> fst (saveDay (Some ''u1'') scenarioDay ''2026-01-20'' emptyStorage unreachableRemote)
       = Inr ()
   \<and> items (fst (snd (saveDay (Some ''u1'') scenarioDay ''2026-01-20'' emptyStorage
                         unreachableRemote))) (storageKey ''2026-01-20'')
       = Some (stringifyDay scenarioDay)"
proof -
  have f: "setFails readOnlyStorage (storageKey ''2026-01-20'')"
    by (simp add: readOnlyStorage_def emptyStorage_def everywhere_def)
  have l: "saveDayData readOnlyStorage scenarioDay = Inl StorageError"
    by (simp add: saveDayData_def setItem_def readOnlyStorage_def emptyStorage_def
        everywhere_def)
  have ok: "\<exists>s1. saveDayData emptyStorage scenarioDay = Inr s1"
    by (simp add: saveDayData_def setItem_def emptyStorage_def nowhere_def)
  have c: "calls (snd (snd (saveDay (Some ''u1'') scenarioDay ''2026-01-20'' emptyStorage
                         unreachableRemote))) \<noteq> calls unreachableRemote"
  proof -
    have e: "calls unreachableRemote = []"
      by (simp add: unreachableRemote_def oneDayRemote_def)
    from ok show ?thesis
      by (auto simp: saveDay_def scenarioDay_dateKey sync_unreachable e)
  qed
  have n: "\<not> fst (syncDayToSupabase ''u1'' scenarioDay unreachableRemote)"
    by (simp add: sync_unreachable)
  note fail = save_failure_isolation [where s = readOnlyStorage and day = scenarioDay
      and dk = "''2026-01-20''" and user = "Some ''u1''" and r = unreachableRemote]
  note pass = save_failure_isolation [where s = emptyStorage and day = scenarioDay
      and dk = "''2026-01-20''" and user = "Some ''u1''" and r = unreachableRemote]
  from fail l have a: "saveDay (Some ''u1'') scenarioDay ''2026-01-20'' readOnlyStorage
      unreachableRemote = (Inl StorageError, readOnlyStorage, unreachableRemote)"
    by (simp add: scenarioDay_dateKey)
  from pass c have b: "fst (saveDay (Some ''u1'') scenarioDay ''2026-01-20'' emptyStorage
        unreachableRemote) = Inr ()
      \<and> items (fst (snd (saveDay (Some ''u1'') scenarioDay ''2026-01-20'' emptyStorage
                         unreachableRemote))) (storageKey ''2026-01-20'')
       = Some (stringifyDay scenarioDay)"
    by (simp add: scenarioDay_dateKey)
  from pass n have d: "length (console unreachableRemote)
       < length (console (snd (syncDayToSupabase ''u1'' scenarioDay unreachableRemote)))"
    by (simp add: scenarioDay_dateKey)
  from f a n d c b show ?thesis by simp
qed


section \<open>Deleting a day\<close>

lemma delete_success_iff:
  "fst (deleteDayFromSupabase dayId r) \<longleftrightarrow>
     outcome_of r (DeleteFeeders dayId) = Succeeds
     \<and> outcome_of r (DeleteTurbines dayId) = Succeeds
     \<and> outcome_of r (DeleteDaily dayId) = Succeeds"
  by (simp add: deleteDayFromSupabase_def Let_def split: outcome.splits)

lemma delete_calls_prefix:
  "\<exists>n. n \<le> 3 \<and> calls (snd (deleteDayFromSupabase dayId r))
       = calls r @ take n [DeleteFeeders dayId, DeleteTurbines dayId, DeleteDaily dayId]"
proof (cases "outcome_of r (DeleteFeeders dayId) = Succeeds")
  case False
  then show ?thesis
    by (intro exI [of _ 1])
      (simp add: deleteDayFromSupabase_def Let_def called_def console_error_def
        split: outcome.splits)
next
  case f: True
  show ?thesis
  proof (cases "outcome_of r (DeleteTurbines dayId) = Succeeds")
    case False
    with f show ?thesis
      by (intro exI [of _ 2])
        (simp add: deleteDayFromSupabase_def Let_def called_def console_error_def
          split: outcome.splits)
  next
    case True
    with f show ?thesis
      by (intro exI [of _ 3])
        (simp add: deleteDayFromSupabase_def Let_def called_def console_error_def
          split: outcome.splits)
  qed
qed

lemma delete_parent_after_children:
  assumes "DeleteDaily dayId \<in> set (drop (length (calls r))
             (calls (snd (deleteDayFromSupabase dayId r))))"
  shows "outcome_of r (DeleteFeeders dayId) = Succeeds
       \<and> outcome_of r (DeleteTurbines dayId) = Succeeds
       \<and> filter (\<lambda>x. f_daily_data_id x = dayId)
            (feeders_tbl (snd (deleteDayFromSupabase dayId r))) = []
       \<and> filter (\<lambda>x. t_daily_data_id x = dayId)
            (turbines_tbl (snd (deleteDayFromSupabase dayId r))) = []
       \<and> drop (length (calls r)) (calls (snd (deleteDayFromSupabase dayId r)))
           = [DeleteFeeders dayId, DeleteTurbines dayId, DeleteDaily dayId]"
  using assms
  by (auto simp: deleteDayFromSupabase_def Let_def called_def console_error_def
      filter_empty_conv split: outcome.splits)

lemma delete_failed_keeps_parent:
  "\<not> fst (deleteDayFromSupabase dayId r)
     \<Longrightarrow> daily_data (snd (deleteDayFromSupabase dayId r)) = daily_data r"
  by (simp add: deleteDayFromSupabase_def Let_def called_def console_error_def
      split: outcome.splits)

lemma confirmDelete_failed:
  assumes "\<not> fst (deleteDayFromSupabase (s_id day) r)"
  shows "confirmDelete False day s r
     = (Some ShowError, s, snd (deleteDayFromSupabase (s_id day) r))"
  using assms
  by (cases "deleteDayFromSupabase (s_id day) r") (simp add: confirmDelete_def)

lemma confirmDelete_local_change:
  assumes "fst (snd (confirmDelete locked day s r)) \<noteq> s"
  shows "fst (deleteDayFromSupabase (s_id day) r)"
  using assms
  by (cases "deleteDayFromSupabase (s_id day) r"; cases locked)
    (auto simp: confirmDelete_def split: bool.splits)

lemma confirmDelete_success:
  assumes "fst (deleteDayFromSupabase (s_id day) r)"
    and "deleteDayData s (s_dateKey day) = (Inr (), s1)"
  shows "confirmDelete False day s r
     = (Some ShowSuccess, s1, snd (deleteDayFromSupabase (s_id day) r))"
  using assms
  by (cases "deleteDayFromSupabase (s_id day) r") (simp add: confirmDelete_def)

text \<open>
  Claim C6. \<open>deleteDayFromSupabase\<close> issues its requests in the order feeder rows,
  turbine rows, parent row, and stops at the first that fails: the parent deletion is
  requested only after both child deletions succeeded, when no child row of the day is
  left. It reports success exactly when all three succeed, and when it reports failure the
  parent row is still there. \<open>confirmDelete\<close> then shows the failure and leaves the
  local store, the stored record and the date index with it, untouched; the local store
  changes only when the remote deletion succeeded, and after a successful local removal
  the success notice is shown.
\<close>

theorem delete_remote_before_local:
  "(fst (deleteDayFromSupabase dayId r) \<longleftrightarrow>
      outcome_of r (DeleteFeeders dayId) = Succeeds
      \<and> outcome_of r (DeleteTurbines dayId) = Succeeds
      \<and> outcome_of r (DeleteDaily dayId) = Succeeds)
   \<and> (\<exists>n. n \<le> 3 \<and> calls (snd (deleteDayFromSupabase dayId r))
          = calls r @ take n [DeleteFeeders dayId, DeleteTurbines dayId, DeleteDaily dayId])
   \<and> (DeleteDaily dayId \<in> set (drop (length (calls r))
                                 (calls (snd (deleteDayFromSupabase dayId r))))
        \<longrightarrow> outcome_of r (DeleteFeeders dayId) = Succeeds
            \<and> outcome_of r (DeleteTurbines dayId) = Succeeds
            \<and> filter (\<lambda>x. f_daily_data_id x = dayId)
                 (feeders_tbl (snd (deleteDayFromSupabase dayId r))) = []
            \<and> filter (\<lambda>x. t_daily_data_id x = dayId)
                 (turbines_tbl (snd (deleteDayFromSupabase dayId r))) = [])
   \<and> (\<not> fst (deleteDayFromSupabase dayId r)
        \<longrightarrow> daily_data (snd (deleteDayFromSupabase dayId r)) = daily_data r)
   \<and> (\<forall>day. s_id day = dayId \<and> \<not> fst (deleteDayFromSupabase dayId r)
          \<longrightarrow> confirmDelete False day s r
              = (Some ShowError, s, snd (deleteDayFromSupabase dayId r)))
   \<and> (\<forall>day locked. s_id day = dayId \<and> fst (snd (confirmDelete locked day s r)) \<noteq> s
          \<longrightarrow> fst (deleteDayFromSupabase dayId r))
   \<and> (\<forall>day s1. s_id day = dayId \<and> fst (deleteDayFromSupabase dayId r)
            \<and> deleteDayData s (s_dateKey day) = (Inr (), s1)
          \<longrightarrow> confirmDelete False day s r
              = (Some ShowSuccess, s1, snd (deleteDayFromSupabase dayId r)))"
  using delete_success_iff [of dayId r] delete_calls_prefix [of dayId r]
    delete_parent_after_children [of dayId r] delete_failed_keeps_parent [of dayId r]
    confirmDelete_failed [where r = r and s = s] confirmDelete_local_change [where r = r and s = s]
    confirmDelete_success [where r = r and s = s]
  by (intro conjI allI impI) blast+

lemma delete_examples:
  "deleteDayFromSupabase ''d1'' (oneDayRemote\<lparr>outcome_of := turbineDeleteFails\<rparr>)
     = (False, oneDayRemote\<lparr>outcome_of := turbineDeleteFails, feeders_tbl := [],
                            calls := [DeleteFeeders ''d1'', DeleteTurbines ''d1''],
                            console := [''Error deleting turbines:'']\<rparr>)"
  "deleteDayFromSupabase ''d1'' oneDayRemote
     = (True, oneDayRemote\<lparr>feeders_tbl := [], turbines_tbl := [], daily_data := [],
                           calls := [DeleteFeeders ''d1'', DeleteTurbines ''d1'',
                                     DeleteDaily ''d1'']\<rparr>)"
  by (simp_all add: deleteDayFromSupabase_def oneDayRemote_def turbineDeleteFails_def
      always_def called_def console_error_def Let_def)

lemma delete_local_example:
  "deleteDayData oneDayStorage ''2026-01-20''
     = (Inr (), emptyStorage\<lparr>items := [listKey \<mapsto> Doc (IndexDoc [])]\<rparr>)"
proof -
  have k: "storageKey ''2026-01-20'' \<noteq> listKey"
    by (simp add: storageKey_def listKey_def)
  have m: "[storageKey ''2026-01-20'' \<mapsto> stringifyDay scenarioDay,
            listKey \<mapsto> Doc (IndexDoc [''2026-01-20''])]
           (storageKey ''2026-01-20'' := None, listKey \<mapsto> Doc (IndexDoc []))
         = [listKey \<mapsto> Doc (IndexDoc [])]"
    using k by (auto simp: fun_eq_iff)
  show ?thesis
    using k
    by (simp add: deleteDayData_def removeItem_def getDayIndex_def getItem_def setItem_def
        oneDayStorage_def emptyStorage_def nowhere_def m)
qed

theorem delete_remote_before_local_witness:
  "\<not> fst (deleteDayFromSupabase ''d1'' (oneDayRemote\<lparr>outcome_of := turbineDeleteFails\<rparr>))
   \<and> confirmDelete False oneDaySummary oneDayStorage
         (oneDayRemote\<lparr>outcome_of := turbineDeleteFails\<rparr>)
       = (Some ShowError, oneDayStorage,
          snd (deleteDayFromSupabase ''d1'' (oneDayRemote\<lparr>outcome_of := turbineDeleteFails\<rparr>)))
   \<and> daily_data (snd (deleteDayFromSupabase ''d1''
                         (oneDayRemote\<lparr>outcome_of := turbineDeleteFails\<rparr>)))
       = daily_data oneDayRemote
   \<and> fst (deleteDayFromSupabase ''d1'' oneDayRemote)
   \<and> DeleteDaily ''d1'' \<in> set (calls (snd (deleteDayFromSupabase ''d1'' oneDayRemote)))
   \<and> filter (\<lambda>x. f_daily_data_id x = ''d1'')
        (feeders_tbl (snd (deleteDayFromSupabase ''d1'' oneDayRemote))) = []
   \<and> filter (\<lambda>x. t_daily_data_id x = ''d1'')
        (turbines_tbl (snd (deleteDayFromSupabase ''d1'' oneDayRemote))) = []
   \<and> fst (confirmDelete False oneDaySummary oneDayStorage oneDayRemote) = Some ShowSuccess
   \<and> fst (snd (confirmDelete False oneDaySummary oneDayStorage oneDayRemote)) \<noteq> oneDayStorage"
proof -
  have id: "s_id oneDaySummary = ''d1''" "s_dateKey oneDaySummary = ''2026-01-20''"
    by (simp_all add: oneDaySummary_def)
  have c0: "calls oneDayRemote = []"
    by (simp add: oneDayRemote_def)
  have diff: "emptyStorage\<lparr>items := [listKey \<mapsto> Doc (IndexDoc [])]\<rparr> \<noteq> oneDayStorage"
  proof
    assume "emptyStorage\<lparr>items := [listKey \<mapsto> Doc (IndexDoc [])]\<rparr> = oneDayStorage"
    then have "items (emptyStorage\<lparr>items := [listKey \<mapsto> Doc (IndexDoc [])]\<rparr>) listKey
        = items oneDayStorage listKey" by simp
    then show False by (simp add: oneDayStorage_def)
  qed
  note bad = delete_remote_before_local [where dayId = "''d1''" and s = oneDayStorage
      and r = "oneDayRemote\<lparr>outcome_of := turbineDeleteFails\<rparr>"]
  note good = delete_remote_before_local [where dayId = "''d1''" and s = oneDayStorage
      and r = oneDayRemote]
  have n: "\<not> fst (deleteDayFromSupabase ''d1'' (oneDayRemote\<lparr>outcome_of := turbineDeleteFails\<rparr>))"
    by (simp add: delete_examples)
  from bad n id have a: "confirmDelete False oneDaySummary oneDayStorage
         (oneDayRemote\<lparr>outcome_of := turbineDeleteFails\<rparr>)
       = (Some ShowError, oneDayStorage,
          snd (deleteDayFromSupabase ''d1'' (oneDayRemote\<lparr>outcome_of := turbineDeleteFails\<rparr>)))"
    by blast
  from bad n have b: "daily_data (snd (deleteDayFromSupabase ''d1''
                         (oneDayRemote\<lparr>outcome_of := turbineDeleteFails\<rparr>)))
       = daily_data oneDayRemote"
    by simp
  have y: "fst (deleteDayFromSupabase ''d1'' oneDayRemote)"
    by (simp add: delete_examples)
  have m: "DeleteDaily ''d1'' \<in> set (calls (snd (deleteDayFromSupabase ''d1'' oneDayRemote)))"
    by (simp add: delete_examples)
  from good m c0 have c: "filter (\<lambda>x. f_daily_data_id x = ''d1'')
        (feeders_tbl (snd (deleteDayFromSupabase ''d1'' oneDayRemote))) = []
      \<and> filter (\<lambda>x. t_daily_data_id x = ''d1'')
        (turbines_tbl (snd (deleteDayFromSupabase ''d1'' oneDayRemote))) = []"
    by simp
  from good y id delete_local_example
  have d: "confirmDelete False oneDaySummary oneDayStorage oneDayRemote
      = (Some ShowSuccess, emptyStorage\<lparr>items := [listKey \<mapsto> Doc (IndexDoc [])]\<rparr>,
         snd (deleteDayFromSupabase ''d1'' oneDayRemote))"
    by metis
  from n a b y m c d diff show ?thesis by simp
qed


section \<open>Export and import\<close>

lemma storageKey_inj: "storageKey a = storageKey b \<longleftrightarrow> a = b"
  by (simp add: storageKey_def)


lemma upsertDayIndex_frame:
  "setFails (upsertDayIndex s dk) = setFails s"
  "getFails (upsertDayIndex s dk) = getFails s"
  by (auto simp: upsertDayIndex_def setItem_def split: option.splits sum.splits if_splits)










lemma getDayData_absent:
  assumes "items s (storageKey k) = None"
  shows "getDayData s k = defaultDay k"
  using assms by (simp add: getDayData_def getItem_def)




lemma dated_empty: "dateKey (getDayData emptyStorage k) = k"
  by (simp add: getDayData_def getItem_def emptyStorage_def nowhere_def defaultDay_def)

lemma getDayData_same:
  assumes "getFails s1 (storageKey k) = getFails s (storageKey k)"
    and "items s1 (storageKey k) = items s (storageKey k)"
  shows "getDayData s1 k = getDayData s k"
  using assms by (simp add: getDayData_def getItem_def)

lemma dated_saveDayData:
  assumes "\<forall>k. dateKey (getDayData s k) = k" and "saveDayData s d = Inr s1"
  shows "\<forall>k. dateKey (getDayData s1 k) = k"
proof
  fix k
  from assms(2) have g: "getFails s1 = getFails s"
    by (auto simp: saveDayData_def setItem_def upsertDayIndex_frame split: sum.splits if_splits)
  from assms(2) have i: "items s1 (storageKey k)
      = ((items s)(storageKey (dateKey d) \<mapsto> stringifyDay d)) (storageKey k)"
    using storageKey_not_listKey [of k]
    by (auto simp: saveDayData_def setItem_def upsertDayIndex_items split: sum.splits if_splits)
  show "dateKey (getDayData s1 k) = k"
  proof (cases "k = dateKey d")
    case True
    with i g show ?thesis
      by (simp add: getDayData_def getItem_def stringifyDay_def asStoredDay_def spreadDay_def
          defaultDay_def)
  next
    case False
    with i g have "getDayData s1 k = getDayData s k"
      by (intro getDayData_same) (simp_all add: storageKey_inj)
    with assms(1) show ?thesis by simp
  qed
qed

lemma dated_deleteDayData:
  assumes "\<forall>k. dateKey (getDayData s k) = k"
  shows "\<forall>k. dateKey (getDayData (snd (deleteDayData s dk)) k) = k"
proof
  fix k
  let ?s' = "snd (deleteDayData s dk)"
  have g: "getFails ?s' = getFails s"
    by (auto simp: deleteDayData_def removeItem_def setItem_def
        split: sum.splits option.splits if_splits)
  have i: "items ?s' (storageKey k) = items s (storageKey k)
      \<or> items ?s' (storageKey k) = None"
    using storageKey_not_listKey [of k]
    by (auto simp: deleteDayData_def removeItem_def setItem_def
        split: sum.splits option.splits if_splits)
  then show "dateKey (getDayData ?s' k) = k"
  proof
    assume "items ?s' (storageKey k) = items s (storageKey k)"
    with g have "getDayData ?s' k = getDayData s k"
      by (intro getDayData_same) simp_all
    with assms show ?thesis by simp
  next
    assume "items ?s' (storageKey k) = None"
    then show ?thesis
      by (simp add: getDayData_def getItem_def defaultDay_def)
  qed
qed

lemma dated_indexed:
  "\<forall>k. dateKey (getDayData s k) = k \<Longrightarrow> indexedByDate s"
  by (simp add: indexedByDate_def list_all_iff split: option.splits)




section \<open>Monthly aggregation\<close>
















lemma example_flows:
  "feederExport scenarioDay = 200" "feederExport withdrawalDay = - 200"
  "monthKey (dateKey scenarioDay) = ''2026-01''" "monthKey (dateKey withdrawalDay) = ''2026-01''"
  by (simp_all add: feederExport_def FEEDERS_def num_def parse_defs scenarioDay_def
      withdrawalDay_def monthKey_def)





section \<open>The sign of the feeder flow\<close>

lemma bounds_example: "monthBounds ''2026-01'' = Some (''2026-01-01'', ''2026-02-01'')"
  by (simp add: monthBounds_def asInteger_def parse_defs String_int_def digits_of.simps
      digit_char_def padStart2_def)

lemma in_month: "''2026-01-01'' \<le> ''2026-01-20''" "''2026-01-20'' < ''2026-02-01''"
  by simp_all

lemma listing_example:
  "fst (fetchMonthDaysFromSupabase ''u1'' ''2026-01'' oneDayRemote)
     = [\<lparr>s_id = ''d1'', s_dateKey = ''2026-01-20'', s_production = 1 / 10,
         s_exportVal = - (1 / 5), s_consumption = 3 / 10\<rparr>]"
  by (simp add: fetchMonthDaysFromSupabase_def bounds_example oneDayRemote_def always_def
      called_def Let_def parseFloatOr0_def parse_defs in_month)

lemma fetched_flow:
  "feederExport (the (fst (fetchDayFromSupabase ''u1'' ''2026-01-20'' oneDayRemote))) = 200"
  by (simp add: fetch_oneDay feederExport_def FEEDERS_def num_def parse_defs)

text \<open>
  Claim C4. \<open>feederExport\<close> is the signed sum of start minus end: 200 for a day on which
  F2 went from 500 to 300, and - 200 for a day on which it went from 100 to 300. The
  month listing of the remote mirror does not follow that convention. For the remote day
  whose feeder F2 reads 500 at the start and 300 at the end, the record fetched from the
  mirror has the flow 200, an export, while \<open>fetchMonthDaysFromSupabase\<close> returns for the
  same rows the export value - 1/5: it sums end minus start and divides by 1000.
\<close>

theorem month_listing_flow_sign:
  "feederExport scenarioDay = 200
   \<and> feederExport withdrawalDay = - 200
   \<and> feederExport (the (fst (fetchDayFromSupabase ''u1'' ''2026-01-20'' oneDayRemote))) = 200
   \<and> map s_exportVal (fst (fetchMonthDaysFromSupabase ''u1'' ''2026-01'' oneDayRemote))
       = [- (1 / 5)]"
  by (simp add: example_flows fetched_flow listing_example)

end
